theory Spec2Isabelle
  imports Complex_Main "HOL-Library.AList"
begin

section \<open>Sessions and the order flow (session\_manager.py)\<close>

text \<open>
  Time. Every \<^verbatim>\<open>datetime.now()\<close> of the source is one reading of a clock.  A clock is a
  function \<open>clk\<close> from the number of readings made so far to a point in time, counted in
  microseconds (the resolution of a Python \<^verbatim>\<open>datetime\<close>); the manager carries the counter
  \<open>tick\<close>.  The source stores timestamps as ISO strings and reads \<^verbatim>\<open>expires_at\<close> back with
  \<^verbatim>\<open>datetime.fromisoformat\<close>; the round trip is the identity on naive datetimes, so the
  model stores the point in time itself.
\<close>

type_synonym time = int

text \<open>
  A Python \<^verbatim>\<open>str\<close> is a list of Unicode code points.  Identifiers (session ids, user ids,
  book ids, the role of a message, status and action tags) are ASCII and written as
  Isabelle strings.
\<close>

type_synonym pystr = "nat list"

datatype OrderState =
    NONE
  | WAITING_QUANTITY
  | WAITING_ADDRESS_PHONE
  | CONFIRMING_ORDER
  | PROCESSING_ORDER
  | ORDER_COMPLETED
  | ORDER_CANCELLED

datatype SessionType = ST_CHAT | ST_ORDER | ST_SEARCH

record OrderData =
  book_id :: string
  book_title :: pystr
  price :: int
  quantity :: int
  customer_name :: pystr
  phone :: pystr
  address :: pystr
  total_price :: int
  created_at :: time
  updated_at :: time

record SessionData =
  session_id :: string
  user_id :: string
  session_type :: SessionType
  order_state :: OrderState
  order_data :: "OrderData option"
  conversation_history :: "(string \<times> pystr \<times> time) list"
  session_context :: "(string \<times> string) list"
  s_created_at :: time
  s_updated_at :: time
  expires_at :: time

text \<open>
  \<^verbatim>\<open>SessionManager\<close>.  The dictionary \<^verbatim>\<open>self.sessions\<close> is an association list in
  insertion order (the order in which Python iterates a dict); \<open>AList.update\<close> overwrites
  a key in place and appends a new one, as an assignment to a dict entry does.
\<close>

record manager =
  sessions :: "(string \<times> SessionData) list"
  session_timeout :: int
  cleanup_interval :: int
  last_cleanup :: time
  tick :: nat

definition now :: "(nat \<Rightarrow> time) \<Rightarrow> manager \<Rightarrow> time \<times> manager" where
  "now clk m = (clk (tick m), m\<lparr>tick := Suc (tick m)\<rparr>)"

definition delete_session :: "string \<Rightarrow> manager \<Rightarrow> bool \<times> manager" where
  "delete_session sid m =
     (if map_of (sessions m) sid \<noteq> None
      then (True, m\<lparr>sessions := AList.delete sid (sessions m)\<rparr>)
      else (False, m))"

definition get_session :: "(nat \<Rightarrow> time) \<Rightarrow> string \<Rightarrow> manager \<Rightarrow> SessionData option \<times> manager" where
  "get_session clk sid m =
     (case map_of (sessions m) sid of
        None \<Rightarrow> (None, m)
      | Some session \<Rightarrow>
          (case now clk m of (t, m1) \<Rightarrow>
             if t > expires_at session
             then (None, snd (delete_session sid m1))
             else (case now clk m1 of (t2, m2) \<Rightarrow>
                     (Some (session\<lparr>s_updated_at := t2\<rparr>),
                      m2\<lparr>sessions := AList.update sid (session\<lparr>s_updated_at := t2\<rparr>) (sessions m2)\<rparr>))))"

text \<open>
  The keyword arguments that the callers of \<^verbatim>\<open>update_session\<close> and \<^verbatim>\<open>update_order_data\<close>
  pass.  Each names a field the dataclass has, so \<^verbatim>\<open>hasattr\<close> holds and the field is set.
\<close>

datatype session_kw =
    Kw_order_state OrderState
  | Kw_order_data "OrderData option"
  | Kw_context "(string \<times> string) list"

datatype order_kw =
    Kw_quantity int
  | Kw_total_price int
  | Kw_address pystr
  | Kw_phone pystr

fun set_session_attr :: "session_kw \<Rightarrow> SessionData \<Rightarrow> SessionData" where
  "set_session_attr (Kw_order_state st) s = s\<lparr>order_state := st\<rparr>"
| "set_session_attr (Kw_order_data od) s = s\<lparr>order_data := od\<rparr>"
| "set_session_attr (Kw_context c) s = s\<lparr>session_context := c\<rparr>"

fun set_order_attr :: "order_kw \<Rightarrow> OrderData \<Rightarrow> OrderData" where
  "set_order_attr (Kw_quantity q) od = od\<lparr>quantity := q\<rparr>"
| "set_order_attr (Kw_total_price p) od = od\<lparr>total_price := p\<rparr>"
| "set_order_attr (Kw_address a) od = od\<lparr>address := a\<rparr>"
| "set_order_attr (Kw_phone p) od = od\<lparr>phone := p\<rparr>"

definition update_session :: "(nat \<Rightarrow> time) \<Rightarrow> string \<Rightarrow> session_kw list \<Rightarrow> manager \<Rightarrow> bool \<times> manager" where
  "update_session clk sid kwargs m =
     (case map_of (sessions m) sid of
        None \<Rightarrow> (False, m)
      | Some session \<Rightarrow>
          (case now clk m of (t, m1) \<Rightarrow>
             (True, m1\<lparr>sessions :=
                AList.update sid ((fold set_session_attr kwargs session)\<lparr>s_updated_at := t\<rparr>)
                  (sessions m1)\<rparr>)))"

definition set_order_state :: "(nat \<Rightarrow> time) \<Rightarrow> string \<Rightarrow> OrderState \<Rightarrow> manager \<Rightarrow> bool \<times> manager" where
  "set_order_state clk sid st m = update_session clk sid [Kw_order_state st] m"

definition get_order_state :: "(nat \<Rightarrow> time) \<Rightarrow> string \<Rightarrow> manager \<Rightarrow> OrderState \<times> manager" where
  "get_order_state clk sid m =
     (case get_session clk sid m of
        (Some session, m1) \<Rightarrow> (order_state session, m1)
      | (None, m1) \<Rightarrow> (NONE, m1))"

definition set_order_data :: "(nat \<Rightarrow> time) \<Rightarrow> string \<Rightarrow> OrderData \<Rightarrow> manager \<Rightarrow> bool \<times> manager" where
  "set_order_data clk sid od m = update_session clk sid [Kw_order_data (Some od)] m"

definition get_order_data :: "(nat \<Rightarrow> time) \<Rightarrow> string \<Rightarrow> manager \<Rightarrow> OrderData option \<times> manager" where
  "get_order_data clk sid m =
     (case get_session clk sid m of
        (Some session, m1) \<Rightarrow> (order_data session, m1)
      | (None, m1) \<Rightarrow> (None, m1))"

definition update_order_data :: "(nat \<Rightarrow> time) \<Rightarrow> string \<Rightarrow> order_kw list \<Rightarrow> manager \<Rightarrow> bool \<times> manager" where
  "update_order_data clk sid kwargs m =
     (case get_session clk sid m of
        (None, m1) \<Rightarrow> (False, m1)
      | (Some session, m1) \<Rightarrow>
          (case order_data session of
             None \<Rightarrow> (False, m1)
           | Some od \<Rightarrow>
               (case now clk m1 of (t1, m2) \<Rightarrow>
                (case now clk m2 of (t2, m3) \<Rightarrow>
                   (True, m3\<lparr>sessions :=
                      AList.update sid
                        (session\<lparr>order_data := Some ((fold set_order_attr kwargs od)\<lparr>updated_at := t1\<rparr>),
                                 s_updated_at := t2\<rparr>)
                        (sessions m3)\<rparr>)))))"

definition clear_order_data :: "(nat \<Rightarrow> time) \<Rightarrow> string \<Rightarrow> manager \<Rightarrow> bool \<times> manager" where
  "clear_order_data clk sid m = update_session clk sid [Kw_order_data None, Kw_order_state NONE] m"

text \<open>
  \<^verbatim>\<open>cleanup_expired_sessions\<close>.  \<^verbatim>\<open>timedelta.seconds\<close> is the seconds component of the
  normalised difference (days, seconds, microseconds): whole seconds modulo one day.
\<close>

definition timedelta_seconds :: "time \<Rightarrow> int" where
  "timedelta_seconds d = (d div 1000000) mod 86400"

definition cleanup_expired_sessions :: "(nat \<Rightarrow> time) \<Rightarrow> manager \<Rightarrow> manager" where
  "cleanup_expired_sessions clk m =
     (case now clk m of (current_time, m1) \<Rightarrow>
        if timedelta_seconds (current_time - last_cleanup m1) < cleanup_interval m1 then m1
        else
          (let expired_sessions =
                 map fst (filter (\<lambda>(sid, session). current_time > expires_at session) (sessions m1))
           in (fold (\<lambda>sid m'. snd (delete_session sid m')) expired_sessions m1)
                \<lparr>last_cleanup := current_time\<rparr>))"

record statistics =
  total_sessions :: int
  active_sessions :: int
  order_sessions :: int
  expired_sessions :: int

text \<open>
  The counting loop of \<^verbatim>\<open>get_session_statistics\<close>: one clock reading for each session, in
  the dictionary's order; the reading of the \<open>i\<close>-th session is \<open>clk (n + i)\<close>.  The result
  is the pair (active\_sessions, order\_sessions), added to the counters on entry.
\<close>

fun count_sessions :: "(nat \<Rightarrow> time) \<Rightarrow> nat \<Rightarrow> SessionData list \<Rightarrow> int \<times> int \<Rightarrow> int \<times> int" where
  "count_sessions clk n [] (a, b) = (a, b)"
| "count_sessions clk n (session # rest) (a, b) =
     (if clk n \<le> expires_at session
      then count_sessions clk (Suc n) rest
             (a + 1, if order_state session \<noteq> NONE then b + 1 else b)
      else count_sessions clk (Suc n) rest (a, b))"

definition get_session_statistics :: "(nat \<Rightarrow> time) \<Rightarrow> manager \<Rightarrow> statistics \<times> manager" where
  "get_session_statistics clk m =
     (let m1 = cleanup_expired_sessions clk m;
          total = int (length (sessions m1));
          (active, orders) = count_sessions clk (tick m1) (map snd (sessions m1)) (0, 0)
      in (\<lparr>total_sessions = total, active_sessions = active, order_sessions = orders,
            expired_sessions = total - active\<rparr>,
          m1\<lparr>tick := tick m1 + length (sessions m1)\<rparr>))"

subsection \<open>OrderFlowManager\<close>

text \<open>
  The book handed to \<^verbatim>\<open>start_order\<close> is a dictionary read with \<^verbatim>\<open>.get(key, default)\<close>:
  each of its three keys may be missing.
\<close>

record book_data =
  bd_book_id :: "string option"
  bd_title :: "pystr option"
  bd_price :: "int option"

text \<open>
  The messages of the order flow are Vietnamese format strings; a message is modelled by
  its template and the values formatted into it.
  \<^item> \<open>Msg_enter_quantity title price\<close>: the prompt of \<^verbatim>\<open>start_order\<close>, asking for the quantity;
  \<^item> \<open>Msg_quantity_not_updated\<close>: "cannot update the quantity";
  \<^item> \<open>Msg_enter_address quantity total\<close>: quantity and total, asking for address and phone;
  \<^item> \<open>Msg_order_not_found\<close>: "order information not found";
  \<^item> \<open>Msg_confirmed\<close>: "the order is confirmed, processing";
  \<^item> \<open>Msg_cancelled\<close>: "the order is cancelled";
  \<^item> \<open>Msg_invalid_quantity\<close>: the retry prompt of the chatbot, "please enter a valid
    quantity (for example '2')".
\<close>

datatype message =
    Msg_enter_quantity pystr int
  | Msg_quantity_not_updated
  | Msg_enter_address int int
  | Msg_order_not_found
  | Msg_confirmed
  | Msg_cancelled
  | Msg_invalid_quantity

record flow_result =
  status :: string
  msg :: message
  result_order_data :: "OrderData option"
  action :: "string option"

text \<open>The default customer name of a new draft, "Khach hang" (customer) with its diacritics.\<close>

definition default_customer_name :: pystr where
  "default_customer_name = [0x4B, 0x68, 0xE1, 0x63, 0x68, 0x20, 0x68, 0xE0, 0x6E, 0x67]"

definition start_order :: "(nat \<Rightarrow> time) \<Rightarrow> string \<Rightarrow> book_data \<Rightarrow> manager \<Rightarrow> flow_result \<times> manager" where
  "start_order clk sid book m =
     (case now clk m of (t1, m1) \<Rightarrow>
      (case now clk m1 of (t2, m2) \<Rightarrow>
        (let od = \<lparr>book_id = case_option [] id (bd_book_id book),
                   book_title = case_option [] id (bd_title book),
                   price = case_option 0 id (bd_price book),
                   quantity = 1,
                   customer_name = default_customer_name,
                   phone = [],
                   address = [],
                   total_price = case_option 0 id (bd_price book),
                   created_at = t1,
                   updated_at = t2\<rparr>;
             m3 = snd (set_order_data clk sid od m2);
             m4 = snd (set_order_state clk sid WAITING_QUANTITY m3)
         in (\<lparr>status = ''success'',
               msg = Msg_enter_quantity (case_option [] id (bd_title book))
                       (case_option 0 id (bd_price book)),
               result_order_data = Some od,
               action = None\<rparr>, m4))))"

text \<open>
  \<^verbatim>\<open>process_quantity\<close>.  The local \<^verbatim>\<open>order_data\<close> is the draft object stored in the session;
  the second \<^verbatim>\<open>update_order_data\<close> writes the total into that same object when it succeeds,
  so the dictionary returned under \<^verbatim>\<open>"order_data"\<close> shows the object after the write.
\<close>

definition process_quantity :: "(nat \<Rightarrow> time) \<Rightarrow> string \<Rightarrow> int \<Rightarrow> manager \<Rightarrow> flow_result \<times> manager" where
  "process_quantity clk sid qty m =
     (case update_order_data clk sid [Kw_quantity qty] m of
        (False, m1) \<Rightarrow>
          (\<lparr>status = ''error'', msg = Msg_quantity_not_updated,
            result_order_data = None, action = None\<rparr>, m1)
      | (True, m1) \<Rightarrow>
          (case get_order_data clk sid m1 of
             (None, m2) \<Rightarrow>
               (\<lparr>status = ''error'', msg = Msg_order_not_found,
                 result_order_data = None, action = None\<rparr>, m2)
           | (Some od, m2) \<Rightarrow>
               (let total = price od * qty in
                (case update_order_data clk sid [Kw_total_price total] m2 of (ok, m3) \<Rightarrow>
                   (let m4 = snd (set_order_state clk sid WAITING_ADDRESS_PHONE m3);
                        od' = (if ok then (case map_of (sessions m3) sid of
                                             Some s \<Rightarrow> (case order_data s of Some o' \<Rightarrow> o' | None \<Rightarrow> od)
                                           | None \<Rightarrow> od)
                               else od)
                    in (\<lparr>status = ''success'', msg = Msg_enter_address qty total,
                          result_order_data = Some od', action = None\<rparr>, m4))))))"

definition confirm_order :: "(nat \<Rightarrow> time) \<Rightarrow> string \<Rightarrow> bool \<Rightarrow> manager \<Rightarrow> flow_result \<times> manager" where
  "confirm_order clk sid confirmed m =
     (if confirmed
      then (\<lparr>status = ''success'', msg = Msg_confirmed, result_order_data = None,
             action = Some ''process_order''\<rparr>,
            snd (set_order_state clk sid PROCESSING_ORDER m))
      else (\<lparr>status = ''success'', msg = Msg_cancelled, result_order_data = None,
             action = Some ''order_cancelled''\<rparr>,
            snd (clear_order_data clk sid m)))"

section \<open>Strings and regular expressions (the Python runtime)\<close>

text \<open>
  Strings are lists of code points (\<open>pystr\<close>).  What \<^verbatim>\<open>str.lower\<close>, \<^verbatim>\<open>\w\<close> and \<^verbatim>\<open>\d\<close>
  do depends on the Unicode character database of the interpreter, which is not part of
  the program: it is a parameter \<open>U\<close> of the model.
  \<^item> \<open>isalnum U c\<close>: \<^verbatim>\<open>str.isalnum\<close> on the code point (\<^verbatim>\<open>\w\<close> is this or the underscore);
  \<^item> \<open>decimal U c\<close>: the value of a decimal digit (\<^verbatim>\<open>\d\<close> matches it, \<^verbatim>\<open>int\<close> reads it);
  \<^item> \<open>lower U c\<close>: what \<^verbatim>\<open>str.lower\<close> puts for the code point (one code point, or more);
  \<^item> \<open>tolower U c\<close>: the simple lower-case mapping, which \<^verbatim>\<open>re.IGNORECASE\<close> compares with.

  \<^verbatim>\<open>str.lower\<close> is taken code point by code point; the one rule of Python that looks at
  the neighbours (capital sigma at the end of a word) is not modelled.
  Whitespace (\<^verbatim>\<open>str.isspace\<close>, \<^verbatim>\<open>\s\<close>, \<^verbatim>\<open>str.strip\<close>, \<^verbatim>\<open>str.split\<close>) is a fixed set of
  code points, written out.
\<close>

record unicode_db =
  isalnum :: "nat \<Rightarrow> bool"
  decimal :: "nat \<Rightarrow> nat option"
  lower :: "nat \<Rightarrow> nat list"
  tolower :: "nat \<Rightarrow> nat"

definition isspace :: "nat \<Rightarrow> bool" where
  "isspace c \<longleftrightarrow>
     (0x09 \<le> c \<and> c \<le> 0x0D) \<or> (0x1C \<le> c \<and> c \<le> 0x20) \<or> c = 0x85 \<or> c = 0xA0 \<or>
     c = 0x1680 \<or> (0x2000 \<le> c \<and> c \<le> 0x200A) \<or> c = 0x2028 \<or> c = 0x2029 \<or>
     c = 0x202F \<or> c = 0x205F \<or> c = 0x3000"

definition is_word :: "unicode_db \<Rightarrow> nat \<Rightarrow> bool" where
  "is_word U c \<longleftrightarrow> isalnum U c \<or> c = 0x5F"

definition lower_str :: "unicode_db \<Rightarrow> pystr \<Rightarrow> pystr" where
  "lower_str U s = concat (map (lower U) s)"

definition strip :: "pystr \<Rightarrow> pystr" where
  "strip s = rev (dropWhile isspace (rev (dropWhile isspace s)))"

text \<open>\<^verbatim>\<open>str.split()\<close>: the maximal runs of non-whitespace; \<open>cur\<close> is the word being read.\<close>

fun split_acc :: "pystr \<Rightarrow> pystr \<Rightarrow> pystr list" where
  "split_acc cur [] = (if cur = [] then [] else [cur])"
| "split_acc cur (c # cs) =
     (if isspace c then (if cur = [] then split_acc [] cs else cur # split_acc [] cs)
      else split_acc (cur @ [c]) cs)"

definition split :: "pystr \<Rightarrow> pystr list" where
  "split s = split_acc [] s"

text \<open>\<^verbatim>\<open>sep.join(words)\<close>, and the words of a phrase joined by one space.\<close>

fun join :: "pystr \<Rightarrow> pystr list \<Rightarrow> pystr" where
  "join sep [] = []"
| "join sep [w] = w"
| "join sep (w # ws) = w @ sep @ join sep ws"

definition phrase :: "pystr list \<Rightarrow> pystr" where
  "phrase ws = join [0x20] ws"

text \<open>\<^verbatim>\<open>k in s\<close> on strings: \<open>k\<close> occurs in \<open>s\<close> as a contiguous substring.\<close>

fun starts_with :: "pystr \<Rightarrow> pystr \<Rightarrow> bool" where
  "starts_with [] s = True"
| "starts_with (k # ks) [] = False"
| "starts_with (k # ks) (c # cs) = (k = c \<and> starts_with ks cs)"

fun py_in :: "pystr \<Rightarrow> pystr \<Rightarrow> bool" where
  "py_in k [] = (k = [])"
| "py_in k (c # cs) = (starts_with k (c # cs) \<or> py_in k cs)"

text \<open>
  \<^verbatim>\<open>int(s)\<close> on a string of decimal digits.  The interpreter refuses a string of more
  digits than its limit (4300 by default, leading zeros counted) with a \<^verbatim>\<open>ValueError\<close>;
  a function that calls \<^verbatim>\<open>int\<close> returns the error (\<open>Inl\<close>) where the source raises it.
\<close>

datatype py_error = ValueError

definition int_max_str_digits :: nat where
  "int_max_str_digits = 4300"

definition digits_value :: "unicode_db \<Rightarrow> pystr \<Rightarrow> int" where
  "digits_value U s =
     int (foldl (\<lambda>a c. 10 * a + (case decimal U c of Some d \<Rightarrow> d | None \<Rightarrow> 0)) 0 s)"

definition py_int :: "unicode_db \<Rightarrow> pystr \<Rightarrow> py_error + int" where
  "py_int U s = (if length s > int_max_str_digits then Inl ValueError else Inr (digits_value U s))"

subsection \<open>Regular expressions\<close>

text \<open>
  The fragment of \<^verbatim>\<open>re\<close> that the patterns of the source use.  A repetition is always
  over a character class.  \<open>Group n r\<close> is the \<open>n\<close>-th capturing group; a non-capturing
  group \<^verbatim>\<open>(?:r)\<close> is \<open>r\<close> itself.

  The matcher is a backtracking matcher, as Python's: \<open>rmatch\<close> returns every way in which
  the expression matches at the cursor, in the order in which backtracking tries them
  (the left alternative first, a greedy repetition longest first, a lazy one shortest
  first); the head of the list is the match that Python reports at that position.
  A cursor is the position, the code point before it (for \<^verbatim>\<open>\b\<close>) and the rest of the text.
\<close>

datatype cclass = Word | Space | Digit | WordOrSpace | AnyChar

fun in_class :: "unicode_db \<Rightarrow> cclass \<Rightarrow> nat \<Rightarrow> bool" where
  "in_class U Word c = is_word U c"
| "in_class U Space c = isspace c"
| "in_class U Digit c = (decimal U c \<noteq> None)"
| "in_class U WordOrSpace c = (is_word U c \<or> isspace c)"
| "in_class U AnyChar c = (c \<noteq> 0x0A)"

datatype regex =
    Lit nat
  | Cls cclass
  | Star cclass
  | Plus cclass
  | LazyPlus cclass
  | Rep cclass nat nat
  | Seq regex regex
  | Alt regex regex
  | Opt regex
  | Group nat regex
  | WordB
  | AtEnd
  | NotAhead regex
  | Eps

type_synonym cursor = "nat \<times> nat option \<times> pystr"
type_synonym caps = "(nat \<times> pystr) list"

text \<open>
  With \<^verbatim>\<open>re.IGNORECASE\<close> a literal matches a code point when their simple lower-case
  mappings agree, or when the two are one of the pairs that the compiler of \<^verbatim>\<open>re\<close> treats
  as equal although neither is the lower case of the other (here those between Latin
  letters and the micro sign).
\<close>

definition ignorecase_fixes :: "nat \<Rightarrow> nat list" where
  "ignorecase_fixes c =
     (if c = 0x69 then [0x131] else if c = 0x131 then [0x69]
      else if c = 0x73 then [0x17F] else if c = 0x17F then [0x73]
      else if c = 0xB5 then [0x3BC] else if c = 0x3BC then [0xB5]
      else if c = 0x1E61 then [0x1E9B] else if c = 0x1E9B then [0x1E61]
      else [])"

definition lit_eq :: "unicode_db \<Rightarrow> bool \<Rightarrow> nat \<Rightarrow> nat \<Rightarrow> bool" where
  "lit_eq U ic a c =
     (if ic then tolower U c = tolower U a \<or> tolower U c \<in> set (ignorecase_fixes (tolower U a))
      else c = a)"

fun at_boundary :: "unicode_db \<Rightarrow> cursor \<Rightarrow> bool" where
  "at_boundary U (i, None, []) = False"
| "at_boundary U (i, None, c # cs) = is_word U c"
| "at_boundary U (i, Some p, []) = is_word U p"
| "at_boundary U (i, Some p, c # cs) = (is_word U p \<noteq> is_word U c)"

text \<open>The cursors after 0, 1, 2, ... code points of the class, the longest run first.\<close>

fun run :: "unicode_db \<Rightarrow> cclass \<Rightarrow> cursor \<Rightarrow> cursor list" where
  "run U k (i, p, []) = [(i, p, [])]"
| "run U k (i, p, c # cs) =
     (if in_class U k c then run U k (Suc i, Some c, cs) @ [(i, p, c # cs)]
      else [(i, p, c # cs)])"

fun rmatch :: "unicode_db \<Rightarrow> bool \<Rightarrow> regex \<Rightarrow> cursor \<times> caps \<Rightarrow> (cursor \<times> caps) list" where
  "rmatch U ic (Lit a) ((i, p, cs), g) =
     (case cs of [] \<Rightarrow> []
      | c # cs' \<Rightarrow> if lit_eq U ic a c then [((Suc i, Some c, cs'), g)] else [])"
| "rmatch U ic (Cls k) ((i, p, cs), g) =
     (case cs of [] \<Rightarrow> []
      | c # cs' \<Rightarrow> if in_class U k c then [((Suc i, Some c, cs'), g)] else [])"
| "rmatch U ic (Star k) (cur, g) = map (\<lambda>c. (c, g)) (run U k cur)"
| "rmatch U ic (Plus k) (cur, g) = map (\<lambda>c. (c, g)) (butlast (run U k cur))"
| "rmatch U ic (LazyPlus k) (cur, g) = map (\<lambda>c. (c, g)) (rev (butlast (run U k cur)))"
| "rmatch U ic (Rep k lo hi) ((i, p, cs), g) =
     map (\<lambda>c. (c, g)) (filter (\<lambda>(j, q, ds). lo \<le> j - i \<and> j - i \<le> hi) (run U k (i, p, cs)))"
| "rmatch U ic (Seq a b) st = concat (map (rmatch U ic b) (rmatch U ic a st))"
| "rmatch U ic (Alt a b) st = rmatch U ic a st @ rmatch U ic b st"
| "rmatch U ic (Opt a) st = rmatch U ic a st @ [st]"
| "rmatch U ic (Group n a) ((i, p, cs), g) =
     map (\<lambda>((j, q, ds), g'). ((j, q, ds), (n, take (j - i) cs) # g'))
       (rmatch U ic a ((i, p, cs), g))"
| "rmatch U ic WordB (cur, g) = (if at_boundary U cur then [(cur, g)] else [])"
| "rmatch U ic AtEnd ((i, p, cs), g) = (if cs = [] \<or> cs = [0x0A] then [((i, p, cs), g)] else [])"
| "rmatch U ic (NotAhead a) st = (if rmatch U ic a st = [] then [st] else [])"
| "rmatch U ic Eps st = [st]"

fun lits :: "pystr \<Rightarrow> regex" where
  "lits [] = Eps"
| "lits [c] = Lit c"
| "lits (c # cs) = Seq (Lit c) (lits cs)"

fun seqs :: "regex list \<Rightarrow> regex" where
  "seqs [] = Eps"
| "seqs [r] = r"
| "seqs (r # rs) = Seq r (seqs rs)"

fun alts :: "regex list \<Rightarrow> regex" where
  "alts [] = Eps"
| "alts [r] = r"
| "alts (r # rs) = Alt r (alts rs)"

text \<open>
  A match object: \<^verbatim>\<open>start()\<close>, \<^verbatim>\<open>end()\<close>, \<^verbatim>\<open>group()\<close> and the captured groups (the most recent
  capture of a group first).  \<^verbatim>\<open>re.search\<close> reports the match at the first position that
  has one; \<^verbatim>\<open>re.finditer\<close> reports the matches from left to right, each search starting
  where the previous match ended (\<open>skip\<close>); \<^verbatim>\<open>re.sub\<close> replaces them by a fixed string.
  No pattern of the source matches the empty string.
\<close>

record rematch =
  m_start :: nat
  m_end :: nat
  m_group :: pystr
  m_groups :: caps

definition group :: "rematch \<Rightarrow> nat \<Rightarrow> pystr" where
  "group m n = (case map_of (m_groups m) n of Some s \<Rightarrow> s | None \<Rightarrow> [])"

fun search_from :: "unicode_db \<Rightarrow> bool \<Rightarrow> regex \<Rightarrow> cursor \<Rightarrow> rematch option" where
  "search_from U ic r (i, p, []) =
     (case rmatch U ic r ((i, p, []), []) of
        [] \<Rightarrow> None
      | ((j, q, ds), g) # _ \<Rightarrow> Some \<lparr>m_start = i, m_end = j, m_group = [], m_groups = g\<rparr>)"
| "search_from U ic r (i, p, c # cs) =
     (case rmatch U ic r ((i, p, c # cs), []) of
        [] \<Rightarrow> search_from U ic r (Suc i, Some c, cs)
      | ((j, q, ds), g) # _ \<Rightarrow>
          Some \<lparr>m_start = i, m_end = j, m_group = take (j - i) (c # cs), m_groups = g\<rparr>)"

definition search :: "unicode_db \<Rightarrow> bool \<Rightarrow> regex \<Rightarrow> pystr \<Rightarrow> rematch option" where
  "search U ic r s = search_from U ic r (0, None, s)"

fun finditer_from :: "unicode_db \<Rightarrow> bool \<Rightarrow> regex \<Rightarrow> nat \<Rightarrow> cursor \<Rightarrow> rematch list" where
  "finditer_from U ic r skip (i, p, []) =
     (if i < skip then []
      else (case rmatch U ic r ((i, p, []), []) of
              [] \<Rightarrow> []
            | ((j, q, ds), g) # _ \<Rightarrow> [\<lparr>m_start = i, m_end = j, m_group = [], m_groups = g\<rparr>]))"
| "finditer_from U ic r skip (i, p, c # cs) =
     (if i < skip then finditer_from U ic r skip (Suc i, Some c, cs)
      else (case rmatch U ic r ((i, p, c # cs), []) of
              [] \<Rightarrow> finditer_from U ic r skip (Suc i, Some c, cs)
            | ((j, q, ds), g) # _ \<Rightarrow>
                \<lparr>m_start = i, m_end = j, m_group = take (j - i) (c # cs), m_groups = g\<rparr>
                  # finditer_from U ic r (max j (Suc i)) (Suc i, Some c, cs)))"

definition finditer :: "unicode_db \<Rightarrow> bool \<Rightarrow> regex \<Rightarrow> pystr \<Rightarrow> rematch list" where
  "finditer U ic r s = finditer_from U ic r 0 (0, None, s)"

fun sub_from :: "unicode_db \<Rightarrow> bool \<Rightarrow> regex \<Rightarrow> pystr \<Rightarrow> nat \<Rightarrow> cursor \<Rightarrow> pystr" where
  "sub_from U ic r repl skip (i, p, []) =
     (if i < skip then []
      else (case rmatch U ic r ((i, p, []), []) of [] \<Rightarrow> [] | _ # _ \<Rightarrow> repl))"
| "sub_from U ic r repl skip (i, p, c # cs) =
     (if i < skip then sub_from U ic r repl skip (Suc i, Some c, cs)
      else (case rmatch U ic r ((i, p, c # cs), []) of
              [] \<Rightarrow> c # sub_from U ic r repl skip (Suc i, Some c, cs)
            | ((j, q, ds), g) # _ \<Rightarrow>
                if i < j then repl @ sub_from U ic r repl j (Suc i, Some c, cs)
                else repl @ c # sub_from U ic r repl skip (Suc i, Some c, cs)))"

definition re_sub :: "unicode_db \<Rightarrow> bool \<Rightarrow> regex \<Rightarrow> pystr \<Rightarrow> pystr \<Rightarrow> pystr" where
  "re_sub U ic r repl s = sub_from U ic r repl 0 (0, None, s)"

section \<open>The tables of nlp\_processor.py\<close>

text \<open>
  The string literals of the source, as code points.  A Vietnamese syllable is named by
  its Telex spelling (the ASCII input convention: \<open>dd\<close> for d with stroke, a doubled vowel
  for the circumflex, \<open>w\<close> for breve and horn, and a final \<open>s f r x j\<close> for the acute,
  grave, hook, tilde and dot-below tone), an English word by itself.
\<close>

definition w_sachs :: pystr where "w_sachs = [0x73, 0xE1, 0x63, 0x68]"
definition w_cuoons :: pystr where "w_cuoons = [0x63, 0x75, 0x1ED1, 0x6E]"
definition w_quyeenr :: pystr where "w_quyeenr = [0x71, 0x75, 0x79, 0x1EC3, 0x6E]"
definition w_taapj :: pystr where "w_taapj = [0x74, 0x1EAD, 0x70]"
definition w_book :: pystr where "w_book = [0x62, 0x6F, 0x6F, 0x6B]"
definition w_gias :: pystr where "w_gias = [0x67, 0x69, 0xE1]"
definition w_tieenf :: pystr where "w_tieenf = [0x74, 0x69, 0x1EC1, 0x6E]"
definition w_cost :: pystr where "w_cost = [0x63, 0x6F, 0x73, 0x74]"
definition w_price :: pystr where "w_price = [0x70, 0x72, 0x69, 0x63, 0x65]"
definition w_tacs :: pystr where "w_tacs = [0x74, 0xE1, 0x63]"
definition w_giar :: pystr where "w_giar = [0x67, 0x69, 0x1EA3]"
definition w_writer :: pystr where "w_writer = [0x77, 0x72, 0x69, 0x74, 0x65, 0x72]"
definition w_author :: pystr where "w_author = [0x61, 0x75, 0x74, 0x68, 0x6F, 0x72]"
definition w_theer :: pystr where "w_theer = [0x74, 0x68, 0x1EC3]"
definition w_loaij :: pystr where "w_loaij = [0x6C, 0x6F, 0x1EA1, 0x69]"
definition w_category :: pystr where "w_category = [0x63, 0x61, 0x74, 0x65, 0x67, 0x6F, 0x72, 0x79]"
definition w_genre :: pystr where "w_genre = [0x67, 0x65, 0x6E, 0x72, 0x65]"
definition w_ddawtj :: pystr where "w_ddawtj = [0x111, 0x1EB7, 0x74]"
definition w_mua :: pystr where "w_mua = [0x6D, 0x75, 0x61]"
definition w_order :: pystr where "w_order = [0x6F, 0x72, 0x64, 0x65, 0x72]"
definition w_purchase :: pystr where "w_purchase = [0x70, 0x75, 0x72, 0x63, 0x68, 0x61, 0x73, 0x65]"
definition w_hay :: pystr where "w_hay = [0x68, 0x61, 0x79]"
definition w_toots :: pystr where "w_toots = [0x74, 0x1ED1, 0x74]"
definition w_ddangs :: pystr where "w_ddangs = [0x111, 0xE1, 0x6E, 0x67]"
definition w_ddocj :: pystr where "w_ddocj = [0x111, 0x1ECD, 0x63]"
definition w_interesting :: pystr where "w_interesting = [0x69, 0x6E, 0x74, 0x65, 0x72, 0x65, 0x73, 0x74, 0x69, 0x6E, 0x67]"
definition w_good :: pystr where "w_good = [0x67, 0x6F, 0x6F, 0x64]"
definition w_tuyeetj :: pystr where "w_tuyeetj = [0x74, 0x75, 0x79, 0x1EC7, 0x74]"
definition w_xuaats :: pystr where "w_xuaats = [0x78, 0x75, 0x1EA5, 0x74]"
definition w_sawcs :: pystr where "w_sawcs = [0x73, 0x1EAF, 0x63]"
definition w_ddepj :: pystr where "w_ddepj = [0x111, 0x1EB9, 0x70]"
definition w_thichs :: pystr where "w_thichs = [0x74, 0x68, 0xED, 0x63, 0x68]"
definition w_yeeu :: pystr where "w_yeeu = [0x79, 0xEA, 0x75]"
definition w_haif :: pystr where "w_haif = [0x68, 0xE0, 0x69]"
definition w_longf :: pystr where "w_longf = [0x6C, 0xF2, 0x6E, 0x67]"
definition w_vui :: pystr where "w_vui = [0x76, 0x75, 0x69]"
definition w_hanhj :: pystr where "w_hanhj = [0x68, 0x1EA1, 0x6E, 0x68]"
definition w_phucs :: pystr where "w_phucs = [0x70, 0x68, 0xFA, 0x63]"
definition w_thus :: pystr where "w_thus = [0x74, 0x68, 0xFA]"
definition w_vij :: pystr where "w_vij = [0x76, 0x1ECB]"
definition w_haaps :: pystr where "w_haaps = [0x68, 0x1EA5, 0x70]"
definition w_daanx :: pystr where "w_daanx = [0x64, 0x1EAB, 0x6E]"
definition w_huts :: pystr where "w_huts = [0x68, 0xFA, 0x74]"
definition w_aans :: pystr where "w_aans = [0x1EA5, 0x6E]"
definition w_tuwowngj :: pystr where "w_tuwowngj = [0x74, 0x1B0, 0x1EE3, 0x6E, 0x67]"
definition w_camr :: pystr where "w_camr = [0x63, 0x1EA3, 0x6D]"
definition w_own :: pystr where "w_own = [0x1A1, 0x6E]"
definition w_thanks :: pystr where "w_thanks = [0x74, 0x68, 0x61, 0x6E, 0x6B, 0x73]"
definition w_thank :: pystr where "w_thank = [0x74, 0x68, 0x61, 0x6E, 0x6B]"
definition w_you :: pystr where "w_you = [0x79, 0x6F, 0x75]"
definition w_banj :: pystr where "w_banj = [0x62, 0x1EA1, 0x6E]"
definition w_vowif :: pystr where "w_vowif = [0x76, 0x1EDD, 0x69]"
definition w_hoanf :: pystr where "w_hoanf = [0x68, 0x6F, 0xE0, 0x6E]"
definition w_haor :: pystr where "w_haor = [0x68, 0x1EA3, 0x6F]"
definition w_chaats :: pystr where "w_chaats = [0x63, 0x68, 0x1EA5, 0x74]"
definition w_luwowngj :: pystr where "w_luwowngj = [0x6C, 0x1B0, 0x1EE3, 0x6E, 0x67]"
definition w_neen :: pystr where "w_neen = [0x6E, 0xEA, 0x6E]"
definition w_khuyeen :: pystr where "w_khuyeen = [0x6B, 0x68, 0x75, 0x79, 0xEA, 0x6E]"
definition w_teej :: pystr where "w_teej = [0x74, 0x1EC7]"
definition w_xaaus :: pystr where "w_xaaus = [0x78, 0x1EA5, 0x75]"
definition w_khoong :: pystr where "w_khoong = [0x6B, 0x68, 0xF4, 0x6E, 0x67]"
definition w_ghets :: pystr where "w_ghets = [0x67, 0x68, 0xE9, 0x74]"
definition w_chans :: pystr where "w_chans = [0x63, 0x68, 0xE1, 0x6E]"
definition w_nhamf :: pystr where "w_nhamf = [0x6E, 0x68, 0xE0, 0x6D]"
definition w_thaats :: pystr where "w_thaats = [0x74, 0x68, 0x1EA5, 0x74]"
definition w_vongj :: pystr where "w_vongj = [0x76, 0x1ECD, 0x6E, 0x67]"
definition w_buoonf :: pystr where "w_buoonf = [0x62, 0x75, 0x1ED3, 0x6E]"
definition w_tuwcs :: pystr where "w_tuwcs = [0x74, 0x1EE9, 0x63]"
definition w_giaanj :: pystr where "w_giaanj = [0x67, 0x69, 0x1EAD, 0x6E]"
definition w_khos :: pystr where "w_khos = [0x6B, 0x68, 0xF3]"
definition w_chiuj :: pystr where "w_chiuj = [0x63, 0x68, 0x1ECB, 0x75]"
definition w_phieenf :: pystr where "w_phieenf = [0x70, 0x68, 0x69, 0x1EC1, 0x6E]"
definition w_ddawts :: pystr where "w_ddawts = [0x111, 0x1EAF, 0x74]"
definition w_mawcs :: pystr where "w_mawcs = [0x6D, 0x1EAF, 0x63]"
definition w_luwaf :: pystr where "w_luwaf = [0x6C, 0x1EEB, 0x61]"
definition w_ddaor :: pystr where "w_ddaor = [0x111, 0x1EA3, 0x6F]"
definition w_kems :: pystr where "w_kems = [0x6B, 0xE9, 0x6D]"
definition w_heets :: pystr where "w_heets = [0x68, 0x1EBF, 0x74]"
definition w_hangf :: pystr where "w_hangf = [0x68, 0xE0, 0x6E, 0x67]"
definition w_cos :: pystr where "w_cos = [0x63, 0xF3]"
definition w_baij :: pystr where "w_baij = [0x62, 0x1EA1, 0x69]"
definition w_looix :: pystr where "w_looix = [0x6C, 0x1ED7, 0x69]"
definition w_sai :: pystr where "w_sai = [0x73, 0x61, 0x69]"
definition w_taij :: pystr where "w_taij = [0x74, 0x1EA1, 0x69]"
definition w_sao :: pystr where "w_sao = [0x73, 0x61, 0x6F]"
definition w_laij :: pystr where "w_laij = [0x6C, 0x1EA1, 0x69]"
definition w_hieeur :: pystr where "w_hieeur = [0x68, 0x69, 0x1EC3, 0x75]"
definition w_phuwcs :: pystr where "w_phuwcs = [0x70, 0x68, 0x1EE9, 0x63]"
definition w_tapj :: pystr where "w_tapj = [0x74, 0x1EA1, 0x70]"
definition w_roois :: pystr where "w_roois = [0x72, 0x1ED1, 0x69]"
definition w_rawms :: pystr where "w_rawms = [0x72, 0x1EAF, 0x6D]"
definition w_bieets :: pystr where "w_bieets = [0x62, 0x69, 0x1EBF, 0x74]"
definition w_lamf :: pystr where "w_lamf = [0x6C, 0xE0, 0x6D]"
definition w_nhuw :: pystr where "w_nhuw = [0x6E, 0x68, 0x1B0]"
definition w_thees :: pystr where "w_thees = [0x74, 0x68, 0x1EBF]"
definition w_naof :: pystr where "w_naof = [0x6E, 0xE0, 0x6F]"
definition w_help :: pystr where "w_help = [0x68, 0x65, 0x6C, 0x70]"
definition w_giups :: pystr where "w_giups = [0x67, 0x69, 0xFA, 0x70]"
definition w_huwowngs :: pystr where "w_huwowngs = [0x68, 0x1B0, 0x1EDB, 0x6E, 0x67]"
definition w_timf :: pystr where "w_timf = [0x74, 0xEC, 0x6D]"
definition w_thaays :: pystr where "w_thaays = [0x74, 0x68, 0x1EA5, 0x79]"
definition w_wow :: pystr where "w_wow = [0x77, 0x6F, 0x77]"
definition w_quas :: pystr where "w_quas = [0x71, 0x75, 0xE1]"
definition w_amazing :: pystr where "w_amazing = [0x61, 0x6D, 0x61, 0x7A, 0x69, 0x6E, 0x67]"
definition w_incredible :: pystr where "w_incredible = [0x69, 0x6E, 0x63, 0x72, 0x65, 0x64, 0x69, 0x62, 0x6C, 0x65]"
definition w_fantastic :: pystr where "w_fantastic = [0x66, 0x61, 0x6E, 0x74, 0x61, 0x73, 0x74, 0x69, 0x63]"
definition w_mee :: pystr where "w_mee = [0x6D, 0xEA]"
definition w_ngay :: pystr where "w_ngay = [0x6E, 0x67, 0x61, 0x79]"
definition w_caanf :: pystr where "w_caanf = [0x63, 0x1EA7, 0x6E]"
definition w_gaaps :: pystr where "w_gaaps = [0x67, 0x1EA5, 0x70]"
definition w_urgent :: pystr where "w_urgent = [0x75, 0x72, 0x67, 0x65, 0x6E, 0x74]"
definition w_bao :: pystr where "w_bao = [0x62, 0x61, 0x6F]"
definition w_nhieeu :: pystr where "w_nhieeu = [0x6E, 0x68, 0x69, 0xEA, 0x75]"
definition w_thoong :: pystr where "w_thoong = [0x74, 0x68, 0xF4, 0x6E, 0x67]"
definition w_tin :: pystr where "w_tin = [0x74, 0x69, 0x6E]"
definition w_tra :: pystr where "w_tra = [0x74, 0x72, 0x61]"
definition w_cuwus :: pystr where "w_cuwus = [0x63, 0x1EE9, 0x75]"
definition w_cuar :: pystr where "w_cuar = [0x63, 0x1EE7, 0x61]"
definition w_veef :: pystr where "w_veef = [0x76, 0x1EC1]"
definition w_toonf :: pystr where "w_toonf = [0x74, 0x1ED3, 0x6E]"
definition w_hieenj :: pystr where "w_hieenj = [0x68, 0x69, 0x1EC7, 0x6E]"
definition w_gif :: pystr where "w_gif = [0x67, 0xEC]"
definition w_kieems :: pystr where "w_kieems = [0x6B, 0x69, 0x1EBF, 0x6D]"
definition w_vieets :: pystr where "w_vieets = [0x76, 0x69, 0x1EBF, 0x74]"
definition w_bowir :: pystr where "w_bowir = [0x62, 0x1EDF, 0x69]"
definition w_thuoocj :: pystr where "w_thuoocj = [0x74, 0x68, 0x75, 0x1ED9, 0x63]"
definition w_duwowis :: pystr where "w_duwowis = [0x64, 0x1B0, 0x1EDB, 0x69]"
definition w_tuwf :: pystr where "w_tuwf = [0x74, 0x1EEB]"
definition w_treen :: pystr where "w_treen = [0x74, 0x72, 0xEA, 0x6E]"
definition w_cao :: pystr where "w_cao = [0x63, 0x61, 0x6F]"
definition w_hown :: pystr where "w_hown = [0x68, 0x1A1, 0x6E]"
definition w_thaaps :: pystr where "w_thaaps = [0x74, 0x68, 0x1EA5, 0x70]"
definition w_vnd :: pystr where "w_vnd = [0x76, 0x6E, 0x64]"
definition w_ddoongf :: pystr where "w_ddoongf = [0x111, 0x1ED3, 0x6E, 0x67]"
definition w_ddeens :: pystr where "w_ddeens = [0x111, 0x1EBF, 0x6E]"
definition w_gowij :: pystr where "w_gowij = [0x67, 0x1EE3, 0x69]"
definition w_ys :: pystr where "w_ys = [0xFD]"
definition w_nhaats :: pystr where "w_nhaats = [0x6E, 0x68, 0x1EA5, 0x74]"
definition w_bans :: pystr where "w_bans = [0x62, 0xE1, 0x6E]"
definition w_chayj :: pystr where "w_chayj = [0x63, 0x68, 0x1EA1, 0x79]"
definition w_cuwar :: pystr where "w_cuwar = [0x63, 0x1EED, 0x61]"
definition w_shop :: pystr where "w_shop = [0x73, 0x68, 0x6F, 0x70]"
definition w_nhuwngx :: pystr where "w_nhuwngx = [0x6E, 0x68, 0x1EEF, 0x6E, 0x67]"
definition w_danh :: pystr where "w_danh = [0x64, 0x61, 0x6E, 0x68]"
definition w_kho :: pystr where "w_kho = [0x6B, 0x68, 0x6F]"
definition w_conf :: pystr where "w_conf = [0x63, 0xF2, 0x6E]"
definition w_sawnx :: pystr where "w_sawnx = [0x73, 0x1EB5, 0x6E]"
definition w_maays :: pystr where "w_maays = [0x6D, 0x1EA5, 0x79]"
definition w_xin :: pystr where "w_xin = [0x78, 0x69, 0x6E]"
definition w_chaof :: pystr where "w_chaof = [0x63, 0x68, 0xE0, 0x6F]"
definition w_hello :: pystr where "w_hello = [0x68, 0x65, 0x6C, 0x6C, 0x6F]"
definition w_hi :: pystr where "w_hi = [0x68, 0x69]"
definition w_anh :: pystr where "w_anh = [0x61, 0x6E, 0x68]"
definition w_chij :: pystr where "w_chij = [0x63, 0x68, 0x1ECB]"
definition w_em :: pystr where "w_em = [0x65, 0x6D]"
definition w_tamj :: pystr where "w_tamj = [0x74, 0x1EA1, 0x6D]"
definition w_bieetj :: pystr where "w_bieetj = [0x62, 0x69, 0x1EC7, 0x74]"
definition w_bye :: pystr where "w_bye = [0x62, 0x79, 0x65]"
definition w_goodbye :: pystr where "w_goodbye = [0x67, 0x6F, 0x6F, 0x64, 0x62, 0x79, 0x65]"
definition w_henj :: pystr where "w_henj = [0x68, 0x1EB9, 0x6E]"
definition w_gawpj :: pystr where "w_gawpj = [0x67, 0x1EB7, 0x70]"
definition w_ddeer :: pystr where "w_ddeer = [0x111, 0x1EC3]"
definition w_VND :: pystr where "w_VND = [0x56, 0x4E, 0x44]"
definition w_Gilead :: pystr where "w_Gilead = [0x47, 0x69, 0x6C, 0x65, 0x61, 0x64]"
definition w_gilead :: pystr where "w_gilead = [0x67, 0x69, 0x6C, 0x65, 0x61, 0x64]"
definition w_DDawtj :: pystr where "w_DDawtj = [0x110, 0x1EB7, 0x74]"

lemmas word_defs =
  w_sachs_def w_cuoons_def w_quyeenr_def w_taapj_def w_book_def w_gias_def w_tieenf_def
  w_cost_def w_price_def w_tacs_def w_giar_def w_writer_def w_author_def w_theer_def
  w_loaij_def w_category_def w_genre_def w_ddawtj_def w_mua_def w_order_def w_purchase_def
  w_hay_def w_toots_def w_ddangs_def w_ddocj_def w_interesting_def w_good_def w_tuyeetj_def
  w_xuaats_def w_sawcs_def w_ddepj_def w_thichs_def w_yeeu_def w_haif_def w_longf_def
  w_vui_def w_hanhj_def w_phucs_def w_thus_def w_vij_def w_haaps_def w_daanx_def w_huts_def
  w_aans_def w_tuwowngj_def w_camr_def w_own_def w_thanks_def w_thank_def w_you_def
  w_banj_def w_vowif_def w_hoanf_def w_haor_def w_chaats_def w_luwowngj_def w_neen_def
  w_khuyeen_def w_teej_def w_xaaus_def w_khoong_def w_ghets_def w_chans_def w_nhamf_def
  w_thaats_def w_vongj_def w_buoonf_def w_tuwcs_def w_giaanj_def w_khos_def w_chiuj_def
  w_phieenf_def w_ddawts_def w_mawcs_def w_luwaf_def w_ddaor_def w_kems_def w_heets_def
  w_hangf_def w_cos_def w_baij_def w_looix_def w_sai_def w_taij_def w_sao_def w_laij_def
  w_hieeur_def w_phuwcs_def w_tapj_def w_roois_def w_rawms_def w_bieets_def w_lamf_def
  w_nhuw_def w_thees_def w_naof_def w_help_def w_giups_def w_huwowngs_def w_timf_def
  w_thaays_def w_wow_def w_quas_def w_amazing_def w_incredible_def w_fantastic_def w_mee_def
  w_ngay_def w_caanf_def w_gaaps_def w_urgent_def w_bao_def w_nhieeu_def w_thoong_def
  w_tin_def w_tra_def w_cuwus_def w_cuar_def w_veef_def w_toonf_def w_hieenj_def w_gif_def
  w_kieems_def w_vieets_def w_bowir_def w_thuoocj_def w_duwowis_def w_tuwf_def w_treen_def
  w_cao_def w_hown_def w_thaaps_def w_vnd_def w_ddoongf_def w_ddeens_def w_gowij_def
  w_ys_def w_nhaats_def w_bans_def w_chayj_def w_cuwar_def w_shop_def w_nhuwngx_def
  w_danh_def w_kho_def w_conf_def w_sawnx_def w_maays_def w_xin_def w_chaof_def w_hello_def
  w_hi_def w_anh_def w_chij_def w_em_def w_tamj_def w_bieetj_def w_bye_def w_goodbye_def
  w_henj_def w_gawpj_def w_ddeer_def w_VND_def w_Gilead_def w_gilead_def w_DDawtj_def

text \<open>
  The letters that \<^verbatim>\<open>normalize_text\<close> lists in its character class besides \<^verbatim>\<open>\w\<close> and
  \<^verbatim>\<open>\s\<close>: the lower-case Vietnamese letters with diacritics, in the order of the source.
\<close>

definition vietnamese_letters :: "nat list" where
  "vietnamese_letters =
     [0xE0, 0xE1, 0x1EA1, 0x1EA3, 0xE3, 0xE2, 0x1EA7, 0x1EA5, 0x1EAD, 0x1EA9, 0x1EAB, 0x103,
      0x1EB1, 0x1EAF, 0x1EB7, 0x1EB3, 0x1EB5, 0xE8, 0xE9, 0x1EB9, 0x1EBB, 0x1EBD, 0xEA,
      0x1EC1, 0x1EBF, 0x1EC7, 0x1EC3, 0x1EC5, 0xEC, 0xED, 0x1ECB, 0x1EC9, 0x129, 0xF2, 0xF3,
      0x1ECD, 0x1ECF, 0xF5, 0xF4, 0x1ED3, 0x1ED1, 0x1ED9, 0x1ED5, 0x1ED7, 0x1A1, 0x1EDD,
      0x1EDB, 0x1EE3, 0x1EDF, 0x1EE1, 0xF9, 0xFA, 0x1EE5, 0x1EE7, 0x169, 0x1B0, 0x1EEB,
      0x1EE9, 0x1EF1, 0x1EED, 0x1EEF, 0x1EF3, 0xFD, 0x1EF5, 0x1EF7, 0x1EF9, 0x111]"

text \<open>\<^verbatim>\<open>VietnameseTextProcessor.SYNONYMS\<close>: the canonical word and its synonyms, in source order.\<close>

definition SYNONYMS :: "(pystr \<times> pystr list) list" where
  "SYNONYMS =
     [(w_sachs, [w_cuoons, w_quyeenr, w_taapj, w_book]),
      (w_gias, [w_tieenf, w_cost, w_price]),
      (phrase [w_tacs, w_giar], [w_writer, w_author]),
      (phrase [w_theer, w_loaij], [w_category, w_genre, w_loaij]),
      (w_ddawtj, [w_mua, w_order, w_purchase]),
      (w_hay, [w_toots, phrase [w_ddangs, w_ddocj], w_interesting, w_good])]"

text \<open>The keyword sets of \<^verbatim>\<open>SentimentAnalyzer\<close>, each as the list of its elements.\<close>

definition POSITIVE_KEYWORDS :: "pystr list" where
  "POSITIVE_KEYWORDS =
    [w_toots, w_hay, w_tuyeetj, phrase [w_xuaats, w_sawcs], w_ddepj, w_thichs, w_yeeu,
     phrase [w_haif, w_longf], w_vui, phrase [w_hanhj, w_phucs], phrase [w_thus, w_vij],
     phrase [w_haaps, w_daanx], phrase [w_cuoons, w_huts], phrase [w_aans, w_tuwowngj],
     phrase [w_camr, w_own], w_thanks, phrase [w_thank, w_you], phrase [w_camr, w_own,
     w_banj], phrase [w_tuyeetj, w_vowif], phrase [w_hoanf, w_haor], phrase [w_chaats,
     w_luwowngj], phrase [w_ddangs, w_gias], phrase [w_neen, w_mua], w_khuyeen]"

definition NEGATIVE_KEYWORDS :: "pystr list" where
  "NEGATIVE_KEYWORDS =
    [w_teej, w_xaaus, phrase [w_khoong, w_thichs], w_ghets, w_chans, phrase [w_nhamf,
     w_chans], phrase [w_thaats, w_vongj], w_buoonf, phrase [w_tuwcs, w_giaanj],
     phrase [w_khos, w_chiuj], w_phieenf, phrase [w_khoong, w_haif, w_longf], w_ddawts,
     w_mawcs, phrase [w_khoong, w_ddangs], phrase [w_luwaf, w_ddaor], w_giar,
     phrase [w_kems, w_chaats, w_luwowngj], phrase [w_heets, w_hangf], phrase [w_khoong,
     w_cos], phrase [w_thaats, w_baij], w_looix, w_sai]"

definition FRUSTRATED_KEYWORDS :: "pystr list" where
  "FRUSTRATED_KEYWORDS =
    [phrase [w_taij, w_sao], phrase [w_sao, w_laij], phrase [w_khoong, w_hieeur],
     phrase [w_khos, w_hieeur], phrase [w_phuwcs, w_tapj], phrase [w_roois, w_rawms],
     phrase [w_khoong, w_bieets], phrase [w_lamf, w_sao], phrase [w_nhuw, w_thees, w_naof],
     w_help, w_giups, phrase [w_huwowngs, w_daanx], phrase [w_khoong, w_timf, w_thaays],
     phrase [w_khoong, w_cos]]"

definition EXCITED_KEYWORDS :: "pystr list" where
  "EXCITED_KEYWORDS =
    [w_wow, phrase [w_tuyeetj, w_quas], w_amazing, w_incredible, w_fantastic,
     phrase [w_tuyeetj, w_vowif], phrase [w_quas, w_hay], phrase [w_quas, w_toots],
     phrase [w_thichs, w_quas], phrase [w_mee, w_quas], phrase [w_ddawtj, w_ngay],
     phrase [w_mua, w_ngay], phrase [w_caanf, w_ngay], w_gaaps, w_urgent]"

text \<open>
  The patterns of \<^verbatim>\<open>_build_intent_patterns\<close>, by intent, in the order of the dictionary.
  In Python notation (non-ASCII letters escaped):
  \<^item> ORDER:
    \<^verbatim>\<open>\b(\u0111\u1eb7t|mua|order)\s+(s\xe1ch|cu\u1ed1n|quy\u1ec3n)\<close>
    \<^verbatim>\<open>\b(mua|\u0111\u1eb7t)\s+\w+\<close>
    \<^verbatim>\<open>\b\u0111\u1eb7t\s+mua\<close>
    \<^verbatim>\<open>\border\s+\w+\<close>
    \<^verbatim>\<open>\bmua\s+\w+\<close>
  \<^item> QUERY:
    \<^verbatim>\<open>\b(gi\xe1|bao nhi\xeau|th\xf4ng tin|tra c\u1ee9u)\s+(c\u1ee7a|v\u1ec1)?\s*\w+\<close>
    \<^verbatim>\<open>\b(gi\xe1|bao nhi\xeau)\s+\w+\<close>
    \<^verbatim>\<open>\bth\xf4ng tin\s+(v\u1ec1|c\u1ee7a)\s+\w+\<close>
    \<^verbatim>\<open>\btra c\u1ee9u\s+\w+\<close>
    \<^verbatim>\<open>\b\w+\s+(c\xf3|t\u1ed3n t\u1ea1i|hi\u1ec7n c\xf3)\s+(bao nhi\xeau|gi\xe1|th\xf4ng tin)\<close>
    \<^verbatim>\<open>\b\w+\s+(bao nhi\xeau|gi\xe1|th\xf4ng tin)\<close>
    \<^verbatim>\<open>\b(c\xf3 bao nhi\xeau|gi\xe1 bao nhi\xeau|th\xf4ng tin g\xec)\s+(v\u1ec1|c\u1ee7a)?\s*\w+\<close>
  \<^item> SEARCH\_BY\_TITLE:
    \<^verbatim>\<open>\b(t\xecm|t\xecm ki\u1ebfm|c\xf3)\s+(s\xe1ch|cu\u1ed1n)\s+\w+\<close>
    \<^verbatim>\<open>\b\w+\s+(c\xf3|t\u1ed3n t\u1ea1i|hi\u1ec7n c\xf3)\<close>
    \<^verbatim>\<open>\b(s\xe1ch|cu\u1ed1n)\s+\w+\<close>
  \<^item> SEARCH\_BY\_AUTHOR:
    \<^verbatim>\<open>\b(t\xe1c gi\u1ea3|s\xe1ch c\u1ee7a|vi\u1ebft b\u1edfi)\s+[\w\s]+\<close>
    \<^verbatim>\<open>\b[\w\s]+\s+(vi\u1ebft|t\xe1c gi\u1ea3)\<close>
    \<^verbatim>\<open>\bs\xe1ch\s+(c\u1ee7a|b\u1edfi)\s+[\w\s]+\<close>
    \<^verbatim>\<open>\bs\xe1ch\s+(?!v\u1ec1\s)(?!hay\b)(?!t\u1ed1t\b)(?!\u0111\xe1ng \u0111\u1ecdc\b)[\w\s]+\<close>
  \<^item> SEARCH\_BY\_CATEGORY:
    \<^verbatim>\<open>\b(th\u1ec3 lo\u1ea1i|lo\u1ea1i s\xe1ch|s\xe1ch v\u1ec1)\s+[\w\s]+\<close>
    \<^verbatim>\<open>\b\w+\s+(th\u1ec3 lo\u1ea1i|lo\u1ea1i)\<close>
    \<^verbatim>\<open>\bs\xe1ch\s+(v\u1ec1|thu\u1ed9c lo\u1ea1i)\s+[\w\s]+\<close>
  \<^item> SEARCH\_BY\_PRICE:
    \<^verbatim>\<open>\b(gi\xe1|s\xe1ch)\s+(d\u01b0\u1edbi|t\u1eeb|tr\xean|cao h\u01a1n|th\u1ea5p h\u01a1n)\s*\d+\<close>
    \<^verbatim>\<open>\b(d\u01b0\u1edbi|t\u1eeb|tr\xean)\s*\d+\s*(vnd|\u0111\u1ed3ng|ti\u1ec1n)?\<close>
    \<^verbatim>\<open>\bgi\xe1\s+t\u1eeb\s*\d+\s*\u0111\u1ebfn\s*\d+\<close>
    \<^verbatim>\<open>\bt\u1eeb\s*\d+\s*\u0111\u1ebfn\s*\d+\<close>
  \<^item> RECOMMEND:
    \<^verbatim>\<open>\b(g\u1ee3i \xfd|hay|t\u1ed1t|\u0111\xe1ng \u0111\u1ecdc|n\xean \u0111\u1ecdc)\<close>
    \<^verbatim>\<open>\b(s\xe1ch|cu\u1ed1n)\s+(hay|t\u1ed1t|\u0111\xe1ng \u0111\u1ecdc)\<close>
    \<^verbatim>\<open>\bg\u1ee3i \xfd\s+(s\xe1ch|cu\u1ed1n)\<close>
    \<^verbatim>\<open>\b(hay nh\u1ea5t|b\xe1n ch\u1ea1y)\<close>
  \<^item> RECOMMEND\_BY\_PRICE:
    \<^verbatim>\<open>\b(s\xe1ch|cu\u1ed1n)\s+(hay|t\u1ed1t|\u0111\xe1ng \u0111\u1ecdc)\s+(d\u01b0\u1edbi|t\u1eeb|tr\xean)\s*\d+\<close>
    \<^verbatim>\<open>\b(hay|t\u1ed1t|\u0111\xe1ng \u0111\u1ecdc)\s+(d\u01b0\u1edbi|t\u1eeb|tr\xean)\s*\d+\<close>
    \<^verbatim>\<open>\bg\u1ee3i \xfd\s+(s\xe1ch|cu\u1ed1n)\s+(d\u01b0\u1edbi|t\u1eeb|tr\xean)\s*\d+\<close>
  \<^item> LIST\_CATEGORIES:
    \<^verbatim>\<open>\b(c\u1eeda h\xe0ng|shop)\s+(c\xf3|nh\u1eefng)\s+(lo\u1ea1i s\xe1ch|th\u1ec3 lo\u1ea1i)\<close>
    \<^verbatim>\<open>\b(danh s\xe1ch|c\xf3 nh\u1eefng)\s+(lo\u1ea1i s\xe1ch|th\u1ec3 lo\u1ea1i)\<close>
    \<^verbatim>\<open>\b(lo\u1ea1i s\xe1ch|th\u1ec3 lo\u1ea1i)\s+(g\xec|n\xe0o)\<close>
  \<^item> CHECK\_STOCK:
    \<^verbatim>\<open>\b(t\u1ed3n kho|c\xf2n h\xe0ng|c\xf3 s\u1eb5n)\s+(c\u1ee7a|v\u1ec1)?\s*\w+\<close>
    \<^verbatim>\<open>\b\w+\s+(c\xf2n|c\xf3)\s+(bao nhi\xeau|m\u1ea5y)\<close>
    \<^verbatim>\<open>\b(t\u1ed3n kho|c\xf2n h\xe0ng)\s+\w+\<close>
  \<^item> GREETING:
    \<^verbatim>\<open>\b(xin ch\xe0o|ch\xe0o|hello|hi)\b\<close>
    \<^verbatim>\<open>\bch\xe0o\s+(b\u1ea1n|anh|ch\u1ecb|em)\<close>
    \<^verbatim>\<open>\bhello\s+\w+\<close>
  \<^item> GOODBYE:
    \<^verbatim>\<open>\b(t\u1ea1m bi\u1ec7t|bye|goodbye)\b\<close>
    \<^verbatim>\<open>\bh\u1eb9n\s+g\u1eb7p\s+l\u1ea1i\<close>
    \<^verbatim>\<open>\bbye\s+\w+\<close>
  \<^item> HELP:
    \<^verbatim>\<open>\b(gi\xfap|help|h\u01b0\u1edbng d\u1eabn)\b\<close>
    \<^verbatim>\<open>\b(l\xe0m sao|nh\u01b0 th\u1ebf n\xe0o)\s+\u0111\u1ec3\<close>
    \<^verbatim>\<open>\bhelp\s+\w+\<close>
\<close>

definition ORDER_patterns :: "regex list" where
  "ORDER_patterns =
     [seqs [WordB, Group 1 (alts [lits w_ddawtj, lits w_mua, lits w_order]), Plus Space,
        Group 2 (alts [lits w_sachs, lits w_cuoons, lits w_quyeenr])],
      seqs [WordB, Group 1 (alts [lits w_mua, lits w_ddawtj]), Plus Space, Plus Word],
      seqs [WordB, lits w_ddawtj, Plus Space, lits w_mua],
      seqs [WordB, lits w_order, Plus Space, Plus Word],
      seqs [WordB, lits w_mua, Plus Space, Plus Word]]"

definition QUERY_patterns :: "regex list" where
  "QUERY_patterns =
     [seqs [WordB, Group 1 (alts [lits w_gias, lits (phrase [w_bao, w_nhieeu]),
        lits (phrase [w_thoong, w_tin]), lits (phrase [w_tra, w_cuwus])]), Plus Space,
        Opt (Group 2 (alts [lits w_cuar, lits w_veef])), Star Space, Plus Word],
      seqs [WordB, Group 1 (alts [lits w_gias, lits (phrase [w_bao, w_nhieeu])]), Plus Space,
        Plus Word],
      seqs [WordB, lits (phrase [w_thoong, w_tin]), Plus Space, Group 1 (alts [lits w_veef,
        lits w_cuar]), Plus Space, Plus Word],
      seqs [WordB, lits (phrase [w_tra, w_cuwus]), Plus Space, Plus Word],
      seqs [WordB, Plus Word, Plus Space, Group 1 (alts [lits w_cos, lits (phrase [w_toonf,
        w_taij]), lits (phrase [w_hieenj, w_cos])]), Plus Space,
        Group 2 (alts [lits (phrase [w_bao, w_nhieeu]), lits w_gias, lits (phrase [w_thoong,
        w_tin])])],
      seqs [WordB, Plus Word, Plus Space, Group 1 (alts [lits (phrase [w_bao, w_nhieeu]),
        lits w_gias, lits (phrase [w_thoong, w_tin])])],
      seqs [WordB, Group 1 (alts [lits (phrase [w_cos, w_bao, w_nhieeu]), lits (phrase [w_gias,
        w_bao, w_nhieeu]), lits (phrase [w_thoong, w_tin, w_gif])]), Plus Space,
        Opt (Group 2 (alts [lits w_veef, lits w_cuar])), Star Space, Plus Word]]"

definition SEARCH_BY_TITLE_patterns :: "regex list" where
  "SEARCH_BY_TITLE_patterns =
     [seqs [WordB, Group 1 (alts [lits w_timf, lits (phrase [w_timf, w_kieems]), lits w_cos]),
        Plus Space, Group 2 (alts [lits w_sachs, lits w_cuoons]), Plus Space, Plus Word],
      seqs [WordB, Plus Word, Plus Space, Group 1 (alts [lits w_cos, lits (phrase [w_toonf,
        w_taij]), lits (phrase [w_hieenj, w_cos])])],
      seqs [WordB, Group 1 (alts [lits w_sachs, lits w_cuoons]), Plus Space, Plus Word]]"

definition SEARCH_BY_AUTHOR_patterns :: "regex list" where
  "SEARCH_BY_AUTHOR_patterns =
     [seqs [WordB, Group 1 (alts [lits (phrase [w_tacs, w_giar]), lits (phrase [w_sachs, w_cuar]),
        lits (phrase [w_vieets, w_bowir])]), Plus Space, Plus WordOrSpace],
      seqs [WordB, Plus WordOrSpace, Plus Space, Group 1 (alts [lits w_vieets,
        lits (phrase [w_tacs, w_giar])])],
      seqs [WordB, lits w_sachs, Plus Space, Group 1 (alts [lits w_cuar, lits w_bowir]),
        Plus Space, Plus WordOrSpace],
      seqs [WordB, lits w_sachs, Plus Space, NotAhead (seqs [lits w_veef, Cls Space]),
        NotAhead (seqs [lits w_hay, WordB]), NotAhead (seqs [lits w_toots, WordB]),
        NotAhead (seqs [lits (phrase [w_ddangs, w_ddocj]), WordB]), Plus WordOrSpace]]"

definition SEARCH_BY_CATEGORY_patterns :: "regex list" where
  "SEARCH_BY_CATEGORY_patterns =
     [seqs [WordB, Group 1 (alts [lits (phrase [w_theer, w_loaij]), lits (phrase [w_loaij,
        w_sachs]), lits (phrase [w_sachs, w_veef])]), Plus Space, Plus WordOrSpace],
      seqs [WordB, Plus Word, Plus Space, Group 1 (alts [lits (phrase [w_theer, w_loaij]),
        lits w_loaij])],
      seqs [WordB, lits w_sachs, Plus Space, Group 1 (alts [lits w_veef, lits (phrase [w_thuoocj,
        w_loaij])]), Plus Space, Plus WordOrSpace]]"

definition SEARCH_BY_PRICE_patterns :: "regex list" where
  "SEARCH_BY_PRICE_patterns =
     [seqs [WordB, Group 1 (alts [lits w_gias, lits w_sachs]), Plus Space,
        Group 2 (alts [lits w_duwowis, lits w_tuwf, lits w_treen, lits (phrase [w_cao,
        w_hown]), lits (phrase [w_thaaps, w_hown])]), Star Space, Plus Digit],
      seqs [WordB, Group 1 (alts [lits w_duwowis, lits w_tuwf, lits w_treen]), Star Space,
        Plus Digit, Star Space, Opt (Group 2 (alts [lits w_vnd, lits w_ddoongf,
        lits w_tieenf]))],
      seqs [WordB, lits w_gias, Plus Space, lits w_tuwf, Star Space, Plus Digit, Star Space,
        lits w_ddeens, Star Space, Plus Digit],
      seqs [WordB, lits w_tuwf, Star Space, Plus Digit, Star Space, lits w_ddeens, Star Space,
        Plus Digit]]"

definition RECOMMEND_patterns :: "regex list" where
  "RECOMMEND_patterns =
     [seqs [WordB, Group 1 (alts [lits (phrase [w_gowij, w_ys]), lits w_hay, lits w_toots,
        lits (phrase [w_ddangs, w_ddocj]), lits (phrase [w_neen, w_ddocj])])],
      seqs [WordB, Group 1 (alts [lits w_sachs, lits w_cuoons]), Plus Space,
        Group 2 (alts [lits w_hay, lits w_toots, lits (phrase [w_ddangs, w_ddocj])])],
      seqs [WordB, lits (phrase [w_gowij, w_ys]), Plus Space, Group 1 (alts [lits w_sachs,
        lits w_cuoons])],
      seqs [WordB, Group 1 (alts [lits (phrase [w_hay, w_nhaats]), lits (phrase [w_bans,
        w_chayj])])]]"

definition RECOMMEND_BY_PRICE_patterns :: "regex list" where
  "RECOMMEND_BY_PRICE_patterns =
     [seqs [WordB, Group 1 (alts [lits w_sachs, lits w_cuoons]), Plus Space,
        Group 2 (alts [lits w_hay, lits w_toots, lits (phrase [w_ddangs, w_ddocj])]),
        Plus Space, Group 3 (alts [lits w_duwowis, lits w_tuwf, lits w_treen]), Star Space,
        Plus Digit],
      seqs [WordB, Group 1 (alts [lits w_hay, lits w_toots, lits (phrase [w_ddangs, w_ddocj])]),
        Plus Space, Group 2 (alts [lits w_duwowis, lits w_tuwf, lits w_treen]), Star Space,
        Plus Digit],
      seqs [WordB, lits (phrase [w_gowij, w_ys]), Plus Space, Group 1 (alts [lits w_sachs,
        lits w_cuoons]), Plus Space, Group 2 (alts [lits w_duwowis, lits w_tuwf,
        lits w_treen]), Star Space, Plus Digit]]"

definition LIST_CATEGORIES_patterns :: "regex list" where
  "LIST_CATEGORIES_patterns =
     [seqs [WordB, Group 1 (alts [lits (phrase [w_cuwar, w_hangf]), lits w_shop]), Plus Space,
        Group 2 (alts [lits w_cos, lits w_nhuwngx]), Plus Space,
        Group 3 (alts [lits (phrase [w_loaij, w_sachs]), lits (phrase [w_theer, w_loaij])])],
      seqs [WordB, Group 1 (alts [lits (phrase [w_danh, w_sachs]), lits (phrase [w_cos,
        w_nhuwngx])]), Plus Space, Group 2 (alts [lits (phrase [w_loaij, w_sachs]),
        lits (phrase [w_theer, w_loaij])])],
      seqs [WordB, Group 1 (alts [lits (phrase [w_loaij, w_sachs]), lits (phrase [w_theer,
        w_loaij])]), Plus Space, Group 2 (alts [lits w_gif, lits w_naof])]]"

definition CHECK_STOCK_patterns :: "regex list" where
  "CHECK_STOCK_patterns =
     [seqs [WordB, Group 1 (alts [lits (phrase [w_toonf, w_kho]), lits (phrase [w_conf, w_hangf]),
        lits (phrase [w_cos, w_sawnx])]), Plus Space, Opt (Group 2 (alts [lits w_cuar,
        lits w_veef])), Star Space, Plus Word],
      seqs [WordB, Plus Word, Plus Space, Group 1 (alts [lits w_conf, lits w_cos]), Plus Space,
        Group 2 (alts [lits (phrase [w_bao, w_nhieeu]), lits w_maays])],
      seqs [WordB, Group 1 (alts [lits (phrase [w_toonf, w_kho]), lits (phrase [w_conf,
        w_hangf])]), Plus Space, Plus Word]]"

definition GREETING_patterns :: "regex list" where
  "GREETING_patterns =
     [seqs [WordB, Group 1 (alts [lits (phrase [w_xin, w_chaof]), lits w_chaof, lits w_hello,
        lits w_hi]), WordB],
      seqs [WordB, lits w_chaof, Plus Space, Group 1 (alts [lits w_banj, lits w_anh, lits w_chij,
        lits w_em])],
      seqs [WordB, lits w_hello, Plus Space, Plus Word]]"

definition GOODBYE_patterns :: "regex list" where
  "GOODBYE_patterns =
     [seqs [WordB, Group 1 (alts [lits (phrase [w_tamj, w_bieetj]), lits w_bye, lits w_goodbye]),
        WordB],
      seqs [WordB, lits w_henj, Plus Space, lits w_gawpj, Plus Space, lits w_laij],
      seqs [WordB, lits w_bye, Plus Space, Plus Word]]"

definition HELP_patterns :: "regex list" where
  "HELP_patterns =
     [seqs [WordB, Group 1 (alts [lits w_giups, lits w_help, lits (phrase [w_huwowngs,
        w_daanx])]), WordB],
      seqs [WordB, Group 1 (alts [lits (phrase [w_lamf, w_sao]), lits (phrase [w_nhuw, w_thees,
        w_naof])]), Plus Space, lits w_ddeer],
      seqs [WordB, lits w_help, Plus Space, Plus Word]]"

text \<open>The keywords that earn the keyword bonus in \<^verbatim>\<open>_calculate_confidence\<close>.\<close>

definition confidence_keywords :: "pystr list" where
  "confidence_keywords =
    [w_ddawtj, w_mua, w_gias, w_timf, phrase [w_gowij, w_ys], phrase [w_cuwar, w_hangf],
     w_sachs, w_cuar, phrase [w_tacs, w_giar], phrase [w_vieets, w_bowir]]"

text \<open>
  The six patterns of \<^verbatim>\<open>_extract_price_parameters\<close>, in the order in which the function tries them.
  \<^item> price\_pattern\_1: \<^verbatim>\<open>gi\xe1\s+t\u1eeb\s*(\d+)\s*\u0111\u1ebfn\s*(\d+)\<close>
  \<^item> price\_pattern\_2: \<^verbatim>\<open>t\u1eeb\s*(\d+)\s*\u0111\u1ebfn\s*(\d+)\<close>
  \<^item> price\_pattern\_3: \<^verbatim>\<open>gi\xe1\s+(d\u01b0\u1edbi|t\u1eeb|tr\xean|cao h\u01a1n|th\u1ea5p h\u01a1n)\s*(\d+)\<close>
  \<^item> price\_pattern\_4: \<^verbatim>\<open>(d\u01b0\u1edbi|t\u1eeb|tr\xean)\s*(\d+)\s*VND\<close>
  \<^item> price\_pattern\_5: \<^verbatim>\<open>(tr\xean|cao h\u01a1n)\s*(\d+)\<close>
  \<^item> price\_pattern\_6: \<^verbatim>\<open>(d\u01b0\u1edbi|th\u1ea5p h\u01a1n)\s*(\d+)\<close>
\<close>

definition price_pattern_1 :: regex where
  "price_pattern_1 =
     seqs [lits w_gias, Plus Space, lits w_tuwf, Star Space, Group 1 (Plus Digit),
       Star Space, lits w_ddeens, Star Space, Group 2 (Plus Digit)]"

definition price_pattern_2 :: regex where
  "price_pattern_2 =
     seqs [lits w_tuwf, Star Space, Group 1 (Plus Digit), Star Space, lits w_ddeens,
       Star Space, Group 2 (Plus Digit)]"

definition price_pattern_3 :: regex where
  "price_pattern_3 =
     seqs [lits w_gias, Plus Space, Group 1 (alts [lits w_duwowis, lits w_tuwf,
       lits w_treen, lits (phrase [w_cao, w_hown]), lits (phrase [w_thaaps, w_hown])]),
       Star Space, Group 2 (Plus Digit)]"

definition price_pattern_4 :: regex where
  "price_pattern_4 =
     seqs [Group 1 (alts [lits w_duwowis, lits w_tuwf, lits w_treen]), Star Space,
       Group 2 (Plus Digit), Star Space, lits w_VND]"

definition price_pattern_5 :: regex where
  "price_pattern_5 =
     seqs [Group 1 (alts [lits w_treen, lits (phrase [w_cao, w_hown])]), Star Space,
       Group 2 (Plus Digit)]"

definition price_pattern_6 :: regex where
  "price_pattern_6 =
     seqs [Group 1 (alts [lits w_duwowis, lits (phrase [w_thaaps, w_hown])]), Star Space,
       Group 2 (Plus Digit)]"

text \<open>
  The patterns of \<^verbatim>\<open>_extract_order_parameters\<close> (the first is also that of \<^verbatim>\<open>EntityExtractor.extract_quantity\<close>).
  \<^item> order\_pattern\_1: \<^verbatim>\<open>\b(\d+)\b\<close>
  \<^item> order\_pattern\_2: \<^verbatim>\<open>(.+?),\s*(\d{9,11})\<close>
\<close>

definition order_pattern_1 :: regex where
  "order_pattern_1 =
     seqs [WordB, Group 1 (Plus Digit), WordB]"

definition order_pattern_2 :: regex where
  "order_pattern_2 =
     seqs [Group 1 (LazyPlus AnyChar), lits [0x2C], Star Space, Group 2 (Rep Digit 9 11)]"

text \<open>
  The pattern of \<^verbatim>\<open>_extract_author_parameters\<close>.
  \<^item> author\_pattern\_1: \<^verbatim>\<open>(t\xe1c gi\u1ea3|s\xe1ch c\u1ee7a|vi\u1ebft b\u1edfi)\s+([\w\s]+?)(?:\s+(?:c\xf3|kh\xf4ng)\b|\?|$)\<close>
\<close>

definition author_pattern_1 :: regex where
  "author_pattern_1 =
     seqs [Group 1 (alts [lits (phrase [w_tacs, w_giar]), lits (phrase [w_sachs, w_cuar]),
       lits (phrase [w_vieets, w_bowir])]), Plus Space, Group 2 (LazyPlus WordOrSpace),
       alts [seqs [Plus Space, alts [lits w_cos, lits w_khoong], WordB], lits [0x3F],
       AtEnd]]"

text \<open>
  The pattern of \<^verbatim>\<open>_extract_category_parameters\<close>.
  \<^item> category\_pattern\_1: \<^verbatim>\<open>(s\xe1ch v\u1ec1|th\u1ec3 lo\u1ea1i|lo\u1ea1i)\s+([\w\s]+?)(?:\s+(?:c\xf3|nh\u1eefng|cu\u1ed1n|g\xec)\b|\?|$)\<close>
\<close>

definition category_pattern_1 :: regex where
  "category_pattern_1 =
     seqs [Group 1 (alts [lits (phrase [w_sachs, w_veef]), lits (phrase [w_theer, w_loaij]),
       lits w_loaij]), Plus Space, Group 2 (LazyPlus WordOrSpace), alts [seqs [Plus Space,
       alts [lits w_cos, lits w_nhuwngx, lits w_cuoons, lits w_gif], WordB], lits [0x3F],
       AtEnd]]"

section \<open>Text normalisation, sentiment and intent (nlp\_processor.py)\<close>

datatype IntentType =
    ORDER
  | QUERY
  | SEARCH_BY_TITLE
  | SEARCH_BY_AUTHOR
  | SEARCH_BY_CATEGORY
  | SEARCH_BY_PRICE
  | RECOMMEND
  | RECOMMEND_BY_PRICE
  | RECOMMEND_BEST
  | LIST_CATEGORIES
  | CHECK_STOCK
  | GREETING
  | GOODBYE
  | HELP
  | COMPARISON
  | REVIEW
  | UNKNOWN

datatype SentimentType = POSITIVE | NEGATIVE | NEUTRAL | FRUSTRATED | EXCITED

subsection \<open>VietnameseTextProcessor\<close>

text \<open>
  \<^verbatim>\<open>normalize_text\<close>.  The first \<^verbatim>\<open>re.sub\<close> replaces every code point outside the class
  (word characters, whitespace, the listed letters) by a space; the second replaces every
  maximal run of whitespace (\<^verbatim>\<open>\s+\<close>) by one space: \<open>in_run\<close> tells that the code point
  before was whitespace, whose run has been replaced already.
\<close>

definition keep_char :: "unicode_db \<Rightarrow> nat \<Rightarrow> bool" where
  "keep_char U c \<longleftrightarrow> is_word U c \<or> isspace c \<or> c \<in> set vietnamese_letters"

definition sub_punctuation :: "unicode_db \<Rightarrow> pystr \<Rightarrow> pystr" where
  "sub_punctuation U s = map (\<lambda>c. if keep_char U c then c else 0x20) s"

fun collapse_from :: "bool \<Rightarrow> pystr \<Rightarrow> pystr" where
  "collapse_from in_run [] = []"
| "collapse_from in_run (c # cs) =
     (if isspace c
      then (if in_run then collapse_from True cs else 0x20 # collapse_from True cs)
      else c # collapse_from False cs)"

definition collapse_ws :: "pystr \<Rightarrow> pystr" where
  "collapse_ws s = collapse_from False s"

definition normalize_text :: "unicode_db \<Rightarrow> pystr \<Rightarrow> pystr" where
  "normalize_text U text =
     (if text = [] then []
      else strip (collapse_ws (sub_punctuation U (strip (lower_str U text)))))"

text \<open>
  \<^verbatim>\<open>expand_synonyms\<close>: for every canonical word and every synonym of it, in the order of
  the table, replace the whole-word occurrences \<^verbatim>\<open>\b synonym \b\<close> by the canonical word.
\<close>

definition expand_synonyms :: "unicode_db \<Rightarrow> pystr \<Rightarrow> pystr" where
  "expand_synonyms U text =
     fold (\<lambda>(main_word, synonyms) t.
             fold (\<lambda>synonym t'. re_sub U False (seqs [WordB, lits synonym, WordB]) main_word t')
               synonyms t)
       SYNONYMS text"

subsection \<open>SentimentAnalyzer\<close>

definition analyze_sentiment :: "unicode_db \<Rightarrow> pystr \<Rightarrow> SentimentType" where
  "analyze_sentiment U text =
     (if text = [] then NEUTRAL
      else
        (let text_lower = lower_str U text;
             words = set (split text_lower);
             positive_count = card (words \<inter> set POSITIVE_KEYWORDS);
             negative_count = card (words \<inter> set NEGATIVE_KEYWORDS);
             frustrated_count = card (words \<inter> set FRUSTRATED_KEYWORDS);
             excited_count = card (words \<inter> set EXCITED_KEYWORDS)
         in if excited_count > 0 \<and> excited_count \<ge> positive_count then EXCITED
            else if frustrated_count > 0 \<and> frustrated_count \<ge> negative_count then FRUSTRATED
            else if positive_count > negative_count then POSITIVE
            else if negative_count > positive_count then NEGATIVE
            else NEUTRAL))"

text \<open>
  The reference definition of the specification: the distinct lower-cased words of the
  input, the number of keywords of each set among them, and the resolution order on the
  four counts.  It has no case for the empty input.
\<close>

definition keyword_count :: "pystr list \<Rightarrow> pystr list \<Rightarrow> nat" where
  "keyword_count ws kws = length (filter (\<lambda>k. k \<in> set ws) (remdups kws))"

definition sentiment_resolution :: "nat \<Rightarrow> nat \<Rightarrow> nat \<Rightarrow> nat \<Rightarrow> SentimentType" where
  "sentiment_resolution excited positive frustrated negative =
     (if excited > 0 \<and> excited \<ge> positive then EXCITED
      else if frustrated > 0 \<and> frustrated \<ge> negative then FRUSTRATED
      else if positive > negative then POSITIVE
      else if negative > positive then NEGATIVE
      else NEUTRAL)"

definition sentiment_reference :: "unicode_db \<Rightarrow> pystr \<Rightarrow> SentimentType" where
  "sentiment_reference U text =
     (let ws = split (lower_str U text)
      in sentiment_resolution (keyword_count ws EXCITED_KEYWORDS) (keyword_count ws POSITIVE_KEYWORDS)
           (keyword_count ws FRUSTRATED_KEYWORDS) (keyword_count ws NEGATIVE_KEYWORDS))"

subsection \<open>IntentClassifier\<close>

text \<open>
  Confidences are Python floats; the model computes with exact rationals (\<open>0.7\<close> is
  \<open>7/10\<close>, \<open>0.01\<close> is \<open>1/100\<close>) and does not round: where a sum of the source is off
  by a rounding error (\<open>0.7 + 0.2\<close> is just below \<open>0.9\<close> in doubles) a comparison of two
  nearly equal confidences can come out differently in the model.  The entity type of an entity is the value of the
  intent's enum member, modelled by the member.  The optional \<^verbatim>\<open>context\<close> of a result,
  never set by the classifier, is left out.
\<close>

record ExtractedEntity =
  ent_value :: pystr
  ent_confidence :: rat
  start_pos :: nat
  end_pos :: nat
  entity_type :: IntentType

text \<open>
  The parameter dictionary, by the keys that the extractors of the classifier set: a key
  that is absent is \<open>None\<close> (or \<open>False\<close> for the two flags, which are only ever set to
  \<^verbatim>\<open>True\<close>).
\<close>

record param_dict =
  p_quantity :: "int option"
  p_address :: "pystr option"
  p_phone :: "pystr option"
  p_is_price_only :: bool
  p_is_stock_only :: bool
  p_price_range :: "(int option \<times> int option) option"
  p_author :: "pystr option"
  p_category :: "pystr option"

definition no_parameters :: param_dict where
  "no_parameters =
     \<lparr>p_quantity = None, p_address = None, p_phone = None, p_is_price_only = False,
      p_is_stock_only = False, p_price_range = None, p_author = None, p_category = None\<rparr>"

record IntentResult =
  intent :: IntentType
  confidence :: rat
  entities :: "ExtractedEntity list"
  parameters :: param_dict
  original_text :: pystr
  sentiment :: "SentimentType option"

definition intent_patterns :: "(IntentType \<times> regex list) list" where
  "intent_patterns =
     [(ORDER, ORDER_patterns),
      (QUERY, QUERY_patterns),
      (SEARCH_BY_TITLE, SEARCH_BY_TITLE_patterns),
      (SEARCH_BY_AUTHOR, SEARCH_BY_AUTHOR_patterns),
      (SEARCH_BY_CATEGORY, SEARCH_BY_CATEGORY_patterns),
      (SEARCH_BY_PRICE, SEARCH_BY_PRICE_patterns),
      (RECOMMEND, RECOMMEND_patterns),
      (RECOMMEND_BY_PRICE, RECOMMEND_BY_PRICE_patterns),
      (LIST_CATEGORIES, LIST_CATEGORIES_patterns),
      (CHECK_STOCK, CHECK_STOCK_patterns),
      (GREETING, GREETING_patterns),
      (GOODBYE, GOODBYE_patterns),
      (HELP, HELP_patterns)]"

text \<open>\<^verbatim>\<open>intent_priority.get(intent, 0)\<close>.\<close>

fun intent_priority :: "IntentType \<Rightarrow> int" where
  "intent_priority ORDER = 10"
| "intent_priority SEARCH_BY_PRICE = 9"
| "intent_priority QUERY = 8"
| "intent_priority RECOMMEND = 7"
| "intent_priority SEARCH_BY_CATEGORY = 6"
| "intent_priority SEARCH_BY_AUTHOR = 5"
| "intent_priority SEARCH_BY_TITLE = 4"
| "intent_priority RECOMMEND_BY_PRICE = 3"
| "intent_priority LIST_CATEGORIES = 2"
| "intent_priority CHECK_STOCK = 1"
| "intent_priority _ = 0"

text \<open>
  \<^verbatim>\<open>sorted(..., key=priority, reverse=True)\<close> is stable: intents of equal priority keep the
  order of the dictionary.  \<open>sort_key\<close> is a stable insertion sort; the key is negated.
\<close>

definition sorted_intents :: "(IntentType \<times> regex list) list" where
  "sorted_intents = sort_key (\<lambda>x. - intent_priority (fst x)) intent_patterns"

definition calculate_confidence :: "unicode_db \<Rightarrow> rematch \<Rightarrow> pystr \<Rightarrow> rat" where
  "calculate_confidence U m text =
     (let match_length = length (m_group m);
          text_length = length text;
          base_confidence =
            (if text_length > 0 then min (7 / 10) (of_nat match_length / of_nat text_length * 2)
             else 1 / 2);
          match_text = lower_str U (m_group m);
          keyword_bonus = (if list_ex (\<lambda>keyword. py_in keyword match_text) confidence_keywords
                           then 4 / 10 else 0);
          position_bonus = (if of_nat (m_start m) < of_nat text_length * (1 / 2 :: rat)
                            then 2 / 10 else 0);
          length_bonus = (if match_length > 10 then 1 / 10 else 0)
      in min 1 (base_confidence + keyword_bonus + position_bonus + length_bonus))"

subsubsection \<open>Parameter extraction\<close>

definition order_address_phone :: "unicode_db \<Rightarrow> pystr \<Rightarrow> param_dict \<Rightarrow> param_dict" where
  "order_address_phone U text ps =
     (case search U False order_pattern_2 text of
        Some address_phone_match \<Rightarrow>
          ps\<lparr>p_address := Some (strip (group address_phone_match 1)),
             p_phone := Some (strip (group address_phone_match 2))\<rparr>
      | None \<Rightarrow> ps)"

definition extract_order_parameters :: "unicode_db \<Rightarrow> pystr \<Rightarrow> py_error + param_dict" where
  "extract_order_parameters U text =
     (case search U False order_pattern_1 text of
        Some quantity_match \<Rightarrow>
          (case py_int U (group quantity_match 1) of
             Inl e \<Rightarrow> Inl e
           | Inr qty \<Rightarrow> Inr (order_address_phone U text (no_parameters\<lparr>p_quantity := Some qty\<rparr>)))
      | None \<Rightarrow> Inr (order_address_phone U text no_parameters))"

definition extract_query_parameters :: "pystr \<Rightarrow> param_dict" where
  "extract_query_parameters text =
     (if py_in w_gias text \<or> py_in (phrase [w_gias, w_bao, w_nhieeu]) text
      then no_parameters\<lparr>p_is_price_only := True\<rparr>
      else if py_in (phrase [w_cos, w_bao, w_nhieeu, w_sachs]) text
            \<or> py_in (phrase [w_cos, w_bao, w_nhieeu, w_cuoons]) text
            \<or> py_in (phrase [w_toonf, w_kho]) text
            \<or> py_in (phrase [w_conf, w_bao, w_nhieeu]) text
      then no_parameters\<lparr>p_is_stock_only := True\<rparr>
      else if py_in (phrase [w_bao, w_nhieeu]) text \<and> (py_in w_gias text \<or> py_in w_tieenf text)
      then no_parameters\<lparr>p_is_price_only := True\<rparr>
      else no_parameters)"

text \<open>
  \<^verbatim>\<open>_extract_price_parameters\<close>: six searches, each returning at once when it matches.
  In the third and the fourth the keyword decides the side of the range; a keyword that is
  in neither list leaves the dictionary empty, and the function still returns.
\<close>

definition price_range_of :: "unicode_db \<Rightarrow> rematch \<Rightarrow> py_error + param_dict" where
  "price_range_of U range_match =
     (case py_int U (group range_match 1) of
        Inl e \<Rightarrow> Inl e
      | Inr lo \<Rightarrow>
          (case py_int U (group range_match 2) of
             Inl e \<Rightarrow> Inl e
           | Inr hi \<Rightarrow> Inr (no_parameters\<lparr>p_price_range := Some (Some lo, Some hi)\<rparr>)))"

definition single_sided_of ::
  "unicode_db \<Rightarrow> pystr list \<Rightarrow> pystr list \<Rightarrow> rematch \<Rightarrow> py_error + param_dict" where
  "single_sided_of U below_kws above_kws single_match =
     (let keyword = lower_str U (group single_match 1) in
      case py_int U (group single_match 2) of
        Inl e \<Rightarrow> Inl e
      | Inr number \<Rightarrow>
          Inr (if keyword \<in> set below_kws
               then no_parameters\<lparr>p_price_range := Some (None, Some number)\<rparr>
               else if keyword \<in> set above_kws
               then no_parameters\<lparr>p_price_range := Some (Some number, None)\<rparr>
               else no_parameters))"

definition extract_price_parameters :: "unicode_db \<Rightarrow> pystr \<Rightarrow> py_error + param_dict" where
  "extract_price_parameters U text =
     (case search U True price_pattern_1 text of
        Some range_match \<Rightarrow> price_range_of U range_match
      | None \<Rightarrow>
     (case search U True price_pattern_2 text of
        Some range_match \<Rightarrow> price_range_of U range_match
      | None \<Rightarrow>
     (case search U True price_pattern_3 text of
        Some single_match \<Rightarrow>
          single_sided_of U [w_duwowis, phrase [w_thaaps, w_hown]]
            [w_tuwf, w_treen, phrase [w_cao, w_hown]] single_match
      | None \<Rightarrow>
     (case search U True price_pattern_4 text of
        Some vnd_match \<Rightarrow> single_sided_of U [w_duwowis] [w_tuwf, w_treen] vnd_match
      | None \<Rightarrow>
     (case search U True price_pattern_5 text of
        Some above_match \<Rightarrow>
          (case py_int U (group above_match 2) of
             Inl e \<Rightarrow> Inl e
           | Inr number \<Rightarrow> Inr (no_parameters\<lparr>p_price_range := Some (Some number, None)\<rparr>))
      | None \<Rightarrow>
     (case search U True price_pattern_6 text of
        Some below_match \<Rightarrow>
          (case py_int U (group below_match 2) of
             Inl e \<Rightarrow> Inl e
           | Inr number \<Rightarrow> Inr (no_parameters\<lparr>p_price_range := Some (None, Some number)\<rparr>))
      | None \<Rightarrow> Inr no_parameters))))))"

definition extract_author_parameters :: "unicode_db \<Rightarrow> pystr \<Rightarrow> param_dict" where
  "extract_author_parameters U text =
     (case search U True author_pattern_1 text of
        Some author_match \<Rightarrow> no_parameters\<lparr>p_author := Some (strip (group author_match 2))\<rparr>
      | None \<Rightarrow>
          (let words = split text in
           if length words > 1 then
             (let words' = (if lower_str U (hd words) \<in> set [w_sachs, w_cuoons, w_quyeenr]
                            then tl words else words)
              in if length words' \<ge> 2 then no_parameters\<lparr>p_author := Some (join [0x20] words')\<rparr>
                 else if length words' = 1 then no_parameters\<lparr>p_author := Some (hd words')\<rparr>
                 else no_parameters)
           else no_parameters))"

definition extract_category_parameters :: "unicode_db \<Rightarrow> pystr \<Rightarrow> param_dict" where
  "extract_category_parameters U text =
     (case search U True category_pattern_1 text of
        Some category_match \<Rightarrow> no_parameters\<lparr>p_category := Some (strip (group category_match 2))\<rparr>
      | None \<Rightarrow>
          (let words = split text in
           if length words > 1
           then no_parameters\<lparr>p_category := Some (join [0x20] (drop (length words - 2) words))\<rparr>
           else no_parameters))"

definition extract_parameters ::
  "unicode_db \<Rightarrow> pystr \<Rightarrow> IntentType \<Rightarrow> py_error + param_dict" where
  "extract_parameters U text i =
     (if i = ORDER then extract_order_parameters U text
      else if i = QUERY then Inr (extract_query_parameters text)
      else if i = SEARCH_BY_PRICE then extract_price_parameters U text
      else if i = SEARCH_BY_AUTHOR then Inr (extract_author_parameters U text)
      else if i = SEARCH_BY_CATEGORY then Inr (extract_category_parameters U text)
      else if i = RECOMMEND_BY_PRICE then extract_price_parameters U text
      else Inr no_parameters)"

subsubsection \<open>classify\_intent\<close>

record best_match =
  best_intent :: IntentType
  best_confidence :: rat
  matched_entities :: "ExtractedEntity list"

text \<open>The body of the innermost loop, for one match of one pattern of one intent.\<close>

definition consider_match ::
  "unicode_db \<Rightarrow> pystr \<Rightarrow> IntentType \<Rightarrow> rematch \<Rightarrow> best_match \<Rightarrow> best_match" where
  "consider_match U expanded_text intent_type m st =
     (let conf = calculate_confidence U m expanded_text;
          priority_bonus = of_int (intent_priority intent_type) * (1 / 100);
          adjusted_confidence = conf + priority_bonus
      in if adjusted_confidence > best_confidence st
         then st\<lparr>best_confidence := adjusted_confidence,
                 best_intent := intent_type,
                 matched_entities :=
                   (if \<not> list_ex (\<lambda>e. ent_value e = m_group m) (matched_entities st)
                    then matched_entities st @
                           [\<lparr>ent_value = m_group m, ent_confidence = conf, start_pos = m_start m,
                             end_pos = m_end m, entity_type = intent_type\<rparr>]
                    else matched_entities st)\<rparr>
         else st)"

definition classify_loop :: "unicode_db \<Rightarrow> pystr \<Rightarrow> best_match" where
  "classify_loop U expanded_text =
     fold (\<lambda>(intent_type, patterns) st.
             fold (\<lambda>pattern st'.
                     fold (consider_match U expanded_text intent_type)
                       (finditer U True pattern expanded_text) st')
               patterns st)
       sorted_intents
       \<lparr>best_intent = UNKNOWN, best_confidence = 0, matched_entities = []\<rparr>"

text \<open>
  \<^verbatim>\<open>classify_intent\<close> raises what \<^verbatim>\<open>_extract_parameters\<close> raises, after the loop; otherwise
  it returns the result.
\<close>

definition classify_intent :: "unicode_db \<Rightarrow> pystr \<Rightarrow> py_error + IntentResult" where
  "classify_intent U text =
     (if text = []
      then Inr \<lparr>intent = UNKNOWN, confidence = 0, entities = [], parameters = no_parameters,
                original_text = text, sentiment = None\<rparr>
      else
        (let normalized_text = normalize_text U text;
             expanded_text = expand_synonyms U normalized_text;
             st = classify_loop U expanded_text
         in case extract_parameters U expanded_text (best_intent st) of
              Inl e \<Rightarrow> Inl e
            | Inr ps \<Rightarrow>
                Inr \<lparr>intent = best_intent st,
                     confidence = best_confidence st,
                     entities = matched_entities st,
                     parameters = ps,
                     original_text = text,
                     sentiment = None\<rparr>))"

section \<open>The quantity step of the chatbot (chatbot.py)\<close>

text \<open>
  \<^verbatim>\<open>EntityExtractor.extract_quantity\<close>: the value of the first standalone run of digits of
  the text (a sign before it is not part of the run), \<open>None\<close> when there is none.
\<close>

definition extract_quantity :: "unicode_db \<Rightarrow> pystr \<Rightarrow> py_error + int option" where
  "extract_quantity U text =
     (case search U False order_pattern_1 text of
        Some m \<Rightarrow> (case py_int U (group m 1) of Inl e \<Rightarrow> Inl e | Inr qty \<Rightarrow> Inr (Some qty))
      | None \<Rightarrow> Inr None)"

record handler_result =
  h_message :: message
  h_intent :: string
  h_data :: "OrderData option"

text \<open>
  \<^verbatim>\<open>_handle_quantity_input\<close>, which \<^verbatim>\<open>_handle_order_flow\<close> calls when the order state is
  WAITING\_QUANTITY.  The test \<^verbatim>\<open>quantity and quantity > 0\<close> rejects \<^verbatim>\<open>None\<close> and 0.
  When \<^verbatim>\<open>extract_quantity\<close> raises, the handler raises before it has touched the manager
  (\<open>Inl\<close>: the manager is as it was).
\<close>

definition handle_quantity_input ::
  "unicode_db \<Rightarrow> (nat \<Rightarrow> time) \<Rightarrow> pystr \<Rightarrow> string \<Rightarrow> manager
     \<Rightarrow> py_error + handler_result \<times> manager" where
  "handle_quantity_input U clk user_input sid m =
     (case extract_quantity U user_input of
        Inl e \<Rightarrow> Inl e
      | Inr None \<Rightarrow>
          Inr (\<lparr>h_message = Msg_invalid_quantity, h_intent = ''order_quantity_error'',
                h_data = None\<rparr>, m)
      | Inr (Some qty) \<Rightarrow>
          if qty \<noteq> 0 \<and> qty > 0
          then (case process_quantity clk sid qty m of (result, m') \<Rightarrow>
                  Inr (\<lparr>h_message = msg result, h_intent = ''order_quantity'',
                        h_data = result_order_data result\<rparr>, m'))
          else Inr (\<lparr>h_message = Msg_invalid_quantity, h_intent = ''order_quantity_error'',
                     h_data = None\<rparr>, m))"

section \<open>A character database for the examples\<close>

text \<open>
  The Unicode character database on the code points of Vietnamese text: Basic Latin,
  the letters and numbers of Latin-1, the letters with breve, stroke, tilde and horn of Latin
  Extended-A and -B that Vietnamese uses, and the Vietnamese block of Latin Extended
  Additional (U+1EA0 to U+1EF9, where the capital is the even code point and the small
  letter the next one).  Other code points are treated as caseless symbols.
\<close>

definition vn_isalnum :: "nat \<Rightarrow> bool" where
  "vn_isalnum c \<longleftrightarrow>
     (0x30 \<le> c \<and> c \<le> 0x39) \<or> (0x41 \<le> c \<and> c \<le> 0x5A) \<or> (0x61 \<le> c \<and> c \<le> 0x7A) \<or>
     c = 0xAA \<or> c = 0xB2 \<or> c = 0xB3 \<or> c = 0xB5 \<or> c = 0xB9 \<or> c = 0xBA \<or>
     (0xBC \<le> c \<and> c \<le> 0xBE) \<or>
     (0xC0 \<le> c \<and> c \<le> 0xFF \<and> c \<noteq> 0xD7 \<and> c \<noteq> 0xF7) \<or>
     c = 0x102 \<or> c = 0x103 \<or> c = 0x110 \<or> c = 0x111 \<or> c = 0x128 \<or> c = 0x129 \<or>
     c = 0x168 \<or> c = 0x169 \<or> c = 0x1A0 \<or> c = 0x1A1 \<or> c = 0x1AF \<or> c = 0x1B0 \<or>
     (0x1EA0 \<le> c \<and> c \<le> 0x1EF9)"

definition vn_tolower :: "nat \<Rightarrow> nat" where
  "vn_tolower c =
     (if 0x41 \<le> c \<and> c \<le> 0x5A then c + 0x20
      else if 0xC0 \<le> c \<and> c \<le> 0xDE \<and> c \<noteq> 0xD7 then c + 0x20
      else if c = 0x102 \<or> c = 0x110 \<or> c = 0x128 \<or> c = 0x168 \<or> c = 0x1A0 then c + 1
      else if c = 0x1AF then 0x1B0
      else if 0x1EA0 \<le> c \<and> c \<le> 0x1EF9 \<and> even c then c + 1
      else c)"

definition vn_decimal :: "nat \<Rightarrow> nat option" where
  "vn_decimal c = (if 0x30 \<le> c \<and> c \<le> 0x39 then Some (c - 0x30) else None)"

definition vn_db :: unicode_db where
  "vn_db = \<lparr>isalnum = vn_isalnum, decimal = vn_decimal, lower = (\<lambda>c. [vn_tolower c]),
            tolower = vn_tolower\<rparr>"

section \<open>Definitions for the statements\<close>

text \<open>
  The property of the character database that makes \<^verbatim>\<open>str.lower\<close> idempotent: a code
  point that lower-casing produces is its own lower case, and so is the space.  It holds
  of the Unicode character database.
\<close>

definition lower_stable :: "unicode_db \<Rightarrow> bool" where
  "lower_stable U \<longleftrightarrow>
     (\<forall>c d. d \<in> set (lower U c) \<longrightarrow> lower U d = [d]) \<and> lower U 0x20 = [0x20]"

text \<open>
  The property of the character database that makes lower-casing act word by word:
  whatever a code point lower-cases to is not empty, and is whitespace exactly when the
  code point is.  It holds of the Unicode character database.
\<close>

definition lower_keeps_words :: "unicode_db \<Rightarrow> bool" where
  "lower_keeps_words U \<longleftrightarrow>
     (\<forall>c. lower U c \<noteq> [] \<and> (\<forall>d\<in>set (lower U c). isspace d = isspace c))"

text \<open>
  A string is whitespace-normal when its only whitespace is the space and no two
  whitespace code points are adjacent: the shape that the second substitution of
  \<^verbatim>\<open>normalize_text\<close> produces.
\<close>

fun ws_normal :: "pystr \<Rightarrow> bool" where
  "ws_normal [] = True"
| "ws_normal [c] = (\<not> isspace c \<or> c = 0x20)"
| "ws_normal (c # d # cs) = ((\<not> isspace c \<or> (c = 0x20 \<and> \<not> isspace d)) \<and> ws_normal (d # cs))"

text \<open>
  The reference reading of the price-range parser: the patterns (a) to (f) in a list, the
  first of them that matches (with its number, from \<open>k\<close> on), and what the pattern of
  that number yields from its match.
\<close>

definition price_patterns :: "regex list" where
  "price_patterns =
     [price_pattern_1, price_pattern_2, price_pattern_3, price_pattern_4, price_pattern_5,
      price_pattern_6]"

fun first_match :: "unicode_db \<Rightarrow> regex list \<Rightarrow> pystr \<Rightarrow> nat \<Rightarrow> (nat \<times> rematch) option" where
  "first_match U [] text k = None"
| "first_match U (r # rs) text k =
     (case search U True r text of
        Some m \<Rightarrow> Some (k, m)
      | None \<Rightarrow> first_match U rs text (Suc k))"

text \<open>Two conversions in a row: the first error, if any, or both numbers.\<close>

definition int_pair :: "unicode_db \<Rightarrow> pystr \<Rightarrow> pystr \<Rightarrow> py_error + int \<times> int" where
  "int_pair U a b =
     (case py_int U a of
        Inl e \<Rightarrow> Inl e
      | Inr x \<Rightarrow> (case py_int U b of Inl e \<Rightarrow> Inl e | Inr y \<Rightarrow> Inr (x, y)))"

definition price_result :: "unicode_db \<Rightarrow> nat \<Rightarrow> rematch \<Rightarrow> py_error + param_dict" where
  "price_result U k m =
     (if k = 1 \<or> k = 2 then
        map_sum id (\<lambda>(lo, hi). no_parameters\<lparr>p_price_range := Some (Some lo, Some hi)\<rparr>)
          (int_pair U (group m 1) (group m 2))
      else if k = 3 then
        single_sided_of U [w_duwowis, phrase [w_thaaps, w_hown]]
          [w_tuwf, w_treen, phrase [w_cao, w_hown]] m
      else if k = 4 then single_sided_of U [w_duwowis] [w_tuwf, w_treen] m
      else if k = 5 then
        map_sum id (\<lambda>n. no_parameters\<lparr>p_price_range := Some (Some n, None)\<rparr>) (py_int U (group m 2))
      else
        map_sum id (\<lambda>n. no_parameters\<lparr>p_price_range := Some (None, Some n)\<rparr>) (py_int U (group m 2)))"

text \<open>The numbers of the examples, as strings of digits.\<close>

definition digits_0 :: pystr where "digits_0 = [0x30]"
definition digits_50000 :: pystr where "digits_50000 = [0x35, 0x30, 0x30, 0x30, 0x30]"
definition digits_100000 :: pystr where "digits_100000 = [0x31, 0x30, 0x30, 0x30, 0x30, 0x30]"
definition digits_150000 :: pystr where "digits_150000 = [0x31, 0x35, 0x30, 0x30, 0x30, 0x30]"
definition digits_200000 :: pystr where "digits_200000 = [0x32, 0x30, 0x30, 0x30, 0x30, 0x30]"

lemmas digits_defs = digits_0_def digits_50000_def digits_100000_def digits_150000_def
  digits_200000_def

lemmas vn_db_defs = vn_db_def vn_isalnum_def vn_tolower_def vn_decimal_def

lemmas pattern_defs = ORDER_patterns_def QUERY_patterns_def SEARCH_BY_TITLE_patterns_def
  SEARCH_BY_AUTHOR_patterns_def SEARCH_BY_CATEGORY_patterns_def SEARCH_BY_PRICE_patterns_def
  RECOMMEND_patterns_def RECOMMEND_BY_PRICE_patterns_def LIST_CATEGORIES_patterns_def
  CHECK_STOCK_patterns_def GREETING_patterns_def GOODBYE_patterns_def HELP_patterns_def

lemmas price_pattern_defs = price_pattern_1_def price_pattern_2_def price_pattern_3_def
  price_pattern_4_def price_pattern_5_def price_pattern_6_def

text \<open>
  Observers used to state the properties: the draft and the order state that the
  manager holds for a session id, and the sessions that the counting loop of
  \<^verbatim>\<open>get_session_statistics\<close> counts as active (those for which it executes
  \<^verbatim>\<open>active_sessions += 1\<close>).
\<close>

definition draft_of :: "string \<Rightarrow> manager \<Rightarrow> OrderData option" where
  "draft_of sid m = (case map_of (sessions m) sid of Some s \<Rightarrow> order_data s | None \<Rightarrow> None)"

definition state_of :: "string \<Rightarrow> manager \<Rightarrow> OrderState option" where
  "state_of sid m = map_option order_state (map_of (sessions m) sid)"

fun counted_active ::
  "(nat \<Rightarrow> time) \<Rightarrow> nat \<Rightarrow> (string \<times> SessionData) list \<Rightarrow> (string \<times> SessionData) list" where
  "counted_active clk n [] = []"
| "counted_active clk n (entry # rest) =
     (if clk n \<le> expires_at (snd entry)
      then entry # counted_active clk (Suc n) rest
      else counted_active clk (Suc n) rest)"

text \<open>Concrete data for the examples: one session \<open>''s1''\<close> and a book at 150000.\<close>

definition demo_draft :: OrderData where
  "demo_draft =
     \<lparr>book_id = ''B1'', book_title = w_Gilead, price = 150000, quantity = 1,
      customer_name = default_customer_name, phone = [], address = [], total_price = 150000,
      created_at = 0, updated_at = 0\<rparr>"

definition demo_session :: "OrderState \<Rightarrow> OrderData option \<Rightarrow> time \<Rightarrow> SessionData" where
  "demo_session st od expiry =
     \<lparr>session_id = ''s1'', user_id = ''user_s1'', session_type = ST_CHAT, order_state = st,
      order_data = od, conversation_history = [], session_context = [],
      s_created_at = 0, s_updated_at = 0, expires_at = expiry\<rparr>"

definition demo_manager :: "SessionData \<Rightarrow> manager" where
  "demo_manager s =
     \<lparr>sessions = [(''s1'', s)], session_timeout = 3600, cleanup_interval = 300,
      last_cleanup = 0, tick = 0\<rparr>"

definition demo_book :: book_data where
  "demo_book = \<lparr>bd_book_id = Some ''B1'', bd_title = Some w_Gilead, bd_price = Some 150000\<rparr>"

section \<open>Properties of the order flow\<close>

lemma count_sessions_counted:
  "fst (count_sessions clk n (map snd es) (a, b)) = a + int (length (counted_active clk n es))"
  by (induction es arbitrary: n a b) auto

lemma counted_active_live:
  assumes "\<forall>i j. i \<le> j \<longrightarrow> clk i \<le> clk j" and "t \<le> clk n"
    and "e \<in> set (counted_active clk n es)"
  shows "t \<le> expires_at (snd e)"
  using assms(2,3)
proof (induction es arbitrary: n)
  case Nil
  then show ?case by simp
next
  case (Cons a es)
  have "t \<le> clk (Suc n)"
    using assms(1) Cons.prems(1) by (meson le_SucI order_refl order_trans)
  with Cons show ?case by (auto split: if_splits)
qed

lemma tick_delete_session: "tick (snd (delete_session sid m)) = tick m"
  by (simp add: delete_session_def)

lemma tick_fold_delete_session:
  "tick (fold (\<lambda>sid m'. snd (delete_session sid m')) xs m) = tick m"
  by (induction xs arbitrary: m) (simp_all add: tick_delete_session)

lemma tick_cleanup_expired_sessions: "tick (cleanup_expired_sessions clk m) = Suc (tick m)"
  by (simp add: cleanup_expired_sessions_def now_def Let_def tick_fold_delete_session)

lemma get_session_expired:
  assumes "map_of (sessions m) sid = Some s" and "expires_at s < clk (tick m)"
  shows "fst (get_session clk sid m) = None"
    and "map_of (sessions (snd (get_session clk sid m))) sid = None"
  using assms by (simp_all add: get_session_def now_def delete_session_def delete_conv')

lemma update_session_lookup:
  "map_of (sessions m) sid = Some s \<Longrightarrow>
   map_of (sessions (snd (update_session clk sid kws m))) sid =
     Some ((fold set_session_attr kws s)\<lparr>s_updated_at := clk (tick m)\<rparr>)"
  by (simp add: update_session_def now_def update_conv')

text \<open>
  C4.  For a session that the manager holds and that does not expire while the calls
  run (its expiry is not before any of the 15 clock readings of the two calls), and a book with unit price \<open>p\<close>: \<^verbatim>\<open>start_order\<close> leaves a draft with quantity 1 and
  total price \<open>p\<close> in state WAITING\_QUANTITY; \<^verbatim>\<open>process_quantity\<close> with \<open>q > 0\<close> after it
  sets the draft's quantity to \<open>q\<close>, its total price to \<open>p * q\<close>, moves the state to
  WAITING\_ADDRESS\_PHONE and reports success.
\<close>

theorem start_order_then_process_quantity:
  assumes live: "map_of (sessions m) sid = Some s"
      "\<forall>n. n < tick m + 15 \<longrightarrow> clk n \<le> expires_at s"
    and p: "bd_price book = Some p" and q: "q > 0"
  shows "map_option quantity (draft_of sid (snd (start_order clk sid book m))) = Some 1
       \<and> map_option total_price (draft_of sid (snd (start_order clk sid book m))) = Some p
       \<and> state_of sid (snd (start_order clk sid book m)) = Some WAITING_QUANTITY
       \<and> map_option quantity
           (draft_of sid (snd (process_quantity clk sid q (snd (start_order clk sid book m)))))
           = Some q
       \<and> map_option total_price
           (draft_of sid (snd (process_quantity clk sid q (snd (start_order clk sid book m)))))
           = Some (p * q)
       \<and> state_of sid (snd (process_quantity clk sid q (snd (start_order clk sid book m))))
           = Some WAITING_ADDRESS_PHONE
       \<and> status (fst (process_quantity clk sid q (snd (start_order clk sid book m)))) = ''success''"
proof -
  have nl: "\<And>n. n < 15 \<Longrightarrow> \<not> expires_at s < clk (tick m + n)"
    using live(2) by (simp add: not_less)
  have nl': "\<not> expires_at s < clk (Suc (Suc (Suc (Suc (tick m)))))"
    "\<not> expires_at s < clk (Suc (Suc (Suc (Suc (Suc (Suc (Suc (Suc (tick m)))))))))"
    "\<not> expires_at s < clk (Suc (Suc (Suc (Suc (Suc (Suc (Suc (Suc (Suc (Suc (tick m)))))))))))"
    using nl[of 4] nl[of 8] nl[of 10] by (simp_all add: numeral_eq_Suc)
  show ?thesis
    using live(1) p nl'
    by (simp add: start_order_def process_quantity_def set_order_data_def set_order_state_def
        update_session_def update_order_data_def get_order_data_def get_session_def now_def
        update_conv' draft_of_def state_of_def Let_def)
qed

theorem start_order_then_process_quantity_witness:
  "map_option total_price
     (draft_of ''s1'' (snd (start_order (\<lambda>n. int n) ''s1'' demo_book
        (demo_manager (demo_session NONE None 3600000000))))) = Some 150000
   \<and> map_option quantity
     (draft_of ''s1'' (snd (process_quantity (\<lambda>n. int n) ''s1'' 3
        (snd (start_order (\<lambda>n. int n) ''s1'' demo_book
           (demo_manager (demo_session NONE None 3600000000))))))) = Some 3
   \<and> map_option total_price
     (draft_of ''s1'' (snd (process_quantity (\<lambda>n. int n) ''s1'' 3
        (snd (start_order (\<lambda>n. int n) ''s1'' demo_book
           (demo_manager (demo_session NONE None 3600000000))))))) = Some 450000
   \<and> state_of ''s1'' (snd (process_quantity (\<lambda>n. int n) ''s1'' 3
        (snd (start_order (\<lambda>n. int n) ''s1'' demo_book
           (demo_manager (demo_session NONE None 3600000000)))))) = Some WAITING_ADDRESS_PHONE"
proof -
  have h1: "map_of (sessions (demo_manager (demo_session NONE None 3600000000))) ''s1''
              = Some (demo_session NONE None 3600000000)"
    by (simp add: demo_manager_def)
  have h2: "\<forall>n. n < tick (demo_manager (demo_session NONE None 3600000000)) + 15
              \<longrightarrow> (\<lambda>n. int n) n \<le> expires_at (demo_session NONE None 3600000000)"
    by (simp add: demo_manager_def demo_session_def)
  have h3: "bd_price demo_book = Some 150000"
    by (simp add: demo_book_def)
  show ?thesis
    using start_order_then_process_quantity [OF h1 h2 h3, of 3] by simp
qed


text \<open>
  C5.  For a session that the manager holds in state CONFIRMING\_ORDER,
  \<^verbatim>\<open>confirm_order\<close> with \<open>confirmed = False\<close> removes the draft (it becomes \<open>None\<close>), puts
  the order state back to NONE and answers with the action \<open>order_cancelled\<close>.
\<close>

theorem confirm_order_cancel_clears_draft:
  assumes "map_of (sessions m) sid = Some s" and "order_state s = CONFIRMING_ORDER"
  shows "map_option order_data (map_of (sessions (snd (confirm_order clk sid False m))) sid)
           = Some None
       \<and> state_of sid (snd (confirm_order clk sid False m)) = Some NONE
       \<and> action (fst (confirm_order clk sid False m)) = Some ''order_cancelled''"
  using assms
  by (simp add: confirm_order_def clear_order_data_def update_session_lookup state_of_def)

theorem confirm_order_cancel_clears_draft_witness:
  "state_of ''s1'' (demo_manager (demo_session CONFIRMING_ORDER (Some demo_draft) 3600000000))
     = Some CONFIRMING_ORDER
   \<and> draft_of ''s1'' (demo_manager (demo_session CONFIRMING_ORDER (Some demo_draft) 3600000000))
     = Some demo_draft
   \<and> map_option order_data (map_of (sessions (snd (confirm_order (\<lambda>n. int n) ''s1'' False
        (demo_manager (demo_session CONFIRMING_ORDER (Some demo_draft) 3600000000))))) ''s1'')
     = Some None
   \<and> state_of ''s1'' (snd (confirm_order (\<lambda>n. int n) ''s1'' False
        (demo_manager (demo_session CONFIRMING_ORDER (Some demo_draft) 3600000000))))
     = Some NONE"
proof -
  have h1: "map_of (sessions (demo_manager (demo_session CONFIRMING_ORDER (Some demo_draft) 3600000000)))
              ''s1'' = Some (demo_session CONFIRMING_ORDER (Some demo_draft) 3600000000)"
    by (simp add: demo_manager_def)
  have h2: "order_state (demo_session CONFIRMING_ORDER (Some demo_draft) 3600000000) = CONFIRMING_ORDER"
    by (simp add: demo_session_def)
  show ?thesis
    using confirm_order_cancel_clears_draft [OF h1 h2, of "\<lambda>n. int n"]
    by (simp add: state_of_def draft_of_def demo_manager_def demo_session_def)
qed

lemma counted_active_subset: "set (counted_active clk n es) \<subseteq> set es"
  by (induction es arbitrary: n) auto

lemma counted_active_length: "length (counted_active clk n es) \<le> length es"
  by (induction es arbitrary: n) (auto simp: le_SucI)

lemma counted_active_misses:
  "e \<in> set es \<Longrightarrow> e \<notin> set (counted_active clk n es) \<Longrightarrow>
   length (counted_active clk n es) < length es"
proof (induction es arbitrary: n)
  case Nil
  then show ?case by simp
next
  case (Cons a es)
  show ?case
  proof (cases "clk n \<le> expires_at (snd a)")
    case True
    with Cons.prems have "e \<in> set es" "e \<notin> set (counted_active clk (Suc n) es)" by auto
    from Cons.IH[OF this] True show ?thesis by simp
  next
    case False
    then show ?thesis
      using counted_active_length[of clk "Suc n" es] by (simp add: less_Suc_eq_le)
  qed
qed

lemma sessions_delete_session_subset:
  "set (sessions (snd (delete_session sid m))) \<subseteq> set (sessions m)"
  by (auto simp: delete_session_def AList.delete_eq)

lemma sessions_fold_delete_session_subset:
  "set (sessions (fold (\<lambda>sid m'. snd (delete_session sid m')) xs m)) \<subseteq> set (sessions m)"
proof (induction xs arbitrary: m)
  case Nil
  then show ?case by simp
next
  case (Cons x xs)
  show ?case
    using Cons.IH[of "snd (delete_session x m)"] sessions_delete_session_subset[of x m]
    by auto
qed

lemma sessions_cleanup_expired_sessions_subset:
  "set (sessions (cleanup_expired_sessions clk m)) \<subseteq> set (sessions m)"
  using sessions_fold_delete_session_subset
    [of "map fst (filter (\<lambda>(sid, session). clk (tick m) > expires_at session) (sessions m))"
        "m\<lparr>tick := Suc (tick m)\<rparr>"]
  by (simp add: cleanup_expired_sessions_def now_def Let_def)

text \<open>
  C9.  Let the clock never run backwards, and let the manager, a dictionary (no id
  twice), hold a session under \<open>sid\<close> whose expiry is earlier than the current time (the
  next clock reading).  Then
  \<^item> \<^verbatim>\<open>get_session\<close> returns no session and removes the entry, so that the id is unknown
    afterwards;
  \<^item> \<^verbatim>\<open>get_session_statistics\<close>, called instead, does not count the session: the sweep at
    its start leaves under \<open>sid\<close> the session as it was or nothing; \<open>active_sessions\<close> is the
    number of entries that the counting loop counts, and no entry with the id \<open>sid\<close> is
    among them; and if the id is still in the dictionary, \<open>active_sessions\<close> is smaller
    than \<open>total_sessions\<close>, that is, \<open>expired_sessions\<close> is positive.
\<close>

theorem expired_session_inaccessible_and_not_active:
  assumes mono: "\<forall>i j. i \<le> j \<longrightarrow> clk i \<le> clk j"
    and keys: "distinct (map fst (sessions m))"
    and s: "map_of (sessions m) sid = Some s" and ex: "expires_at s < clk (tick m)"
  shows "fst (get_session clk sid m) = None
       \<and> map_of (sessions (snd (get_session clk sid m))) sid = None
       \<and> fst (get_session clk sid (snd (get_session clk sid m))) = None
       \<and> (map_of (sessions (cleanup_expired_sessions clk m)) sid = None
            \<or> map_of (sessions (cleanup_expired_sessions clk m)) sid = Some s)
       \<and> active_sessions (fst (get_session_statistics clk m)) =
           int (length (counted_active clk (tick (cleanup_expired_sessions clk m))
                  (sessions (cleanup_expired_sessions clk m))))
       \<and> sid \<notin> fst ` set (counted_active clk (tick (cleanup_expired_sessions clk m))
                  (sessions (cleanup_expired_sessions clk m)))
       \<and> (map_of (sessions (cleanup_expired_sessions clk m)) sid = None
            \<or> active_sessions (fst (get_session_statistics clk m))
                < total_sessions (fst (get_session_statistics clk m))
              \<and> 0 < expired_sessions (fst (get_session_statistics clk m)))"
proof -
  let ?m1 = "cleanup_expired_sessions clk m"
  let ?st = "fst (get_session_statistics clk m)"
  have sub: "set (sessions ?m1) \<subseteq> set (sessions m)"
    by (rule sessions_cleanup_expired_sessions_subset)
  have same: "s' = s" if "(sid, s') \<in> set (sessions ?m1)" for s'
  proof -
    from that sub have "(sid, s') \<in> set (sessions m)" by blast
    with keys have "map_of (sessions m) sid = Some s'" by simp
    with s show ?thesis by simp
  qed
  have kept: "map_of (sessions ?m1) sid = None \<or> map_of (sessions ?m1) sid = Some s"
  proof (cases "map_of (sessions ?m1) sid")
    case None
    then show ?thesis by simp
  next
    case (Some s')
    then have "(sid, s') \<in> set (sessions ?m1)" by (rule map_of_SomeD)
    with same Some show ?thesis by simp
  qed
  have a: "active_sessions ?st = int (length (counted_active clk (tick ?m1) (sessions ?m1)))"
    using count_sessions_counted[of clk "tick ?m1" "sessions ?m1" 0 0]
    by (auto simp add: get_session_statistics_def Let_def split: prod.splits)
  have t: "total_sessions ?st = int (length (sessions ?m1))"
    by (simp add: get_session_statistics_def Let_def split: prod.splits)
  have x: "expired_sessions ?st = total_sessions ?st - active_sessions ?st"
    by (simp add: get_session_statistics_def Let_def split: prod.splits)
  have later: "clk (tick m) \<le> clk (tick ?m1)"
    using mono by (simp add: tick_cleanup_expired_sessions)
  have b: "sid \<notin> fst ` set (counted_active clk (tick ?m1) (sessions ?m1))"
  proof
    assume "sid \<in> fst ` set (counted_active clk (tick ?m1) (sessions ?m1))"
    then obtain s' where in_c: "(sid, s') \<in> set (counted_active clk (tick ?m1) (sessions ?m1))"
      by auto
    with counted_active_subset[of clk "tick ?m1" "sessions ?m1"]
    have "(sid, s') \<in> set (sessions ?m1)" by blast
    then have "s' = s" by (rule same)
    moreover have "clk (tick m) \<le> expires_at (snd (sid, s'))"
      using counted_active_live[OF mono later in_c] .
    ultimately show False using ex by simp
  qed
  have n: "active_sessions ?st < total_sessions ?st \<and> 0 < expired_sessions ?st"
    if "map_of (sessions ?m1) sid \<noteq> None"
  proof -
    from that obtain s' where "map_of (sessions ?m1) sid = Some s'" by auto
    then have in_s: "(sid, s') \<in> set (sessions ?m1)" by (rule map_of_SomeD)
    moreover from b have "(sid, s') \<notin> set (counted_active clk (tick ?m1) (sessions ?m1))"
      by force
    ultimately have "length (counted_active clk (tick ?m1) (sessions ?m1)) < length (sessions ?m1)"
      by (rule counted_active_misses)
    with a t x show ?thesis by simp
  qed
  have c: "fst (get_session clk sid m) = None"
    and d: "map_of (sessions (snd (get_session clk sid m))) sid = None"
    using get_session_expired[of m sid s clk] s ex by simp_all
  from d have e: "fst (get_session clk sid (snd (get_session clk sid m))) = None"
    by (simp add: get_session_def)
  from a b c d e kept n show ?thesis by blast
qed

text \<open>
  The witness: one session \<open>''s1''\<close> that expired at 10, read by a clock that starts at
  100.  \<^verbatim>\<open>get_session\<close> returns nothing and empties the dictionary.  The sweep of
  \<^verbatim>\<open>get_session_statistics\<close> does not run (the cleanup interval has not elapsed), the
  session is still in the dictionary, and the statistics are 1 session in total, 0 active,
  1 expired.
\<close>

theorem expired_session_inaccessible_and_not_active_witness:
  "expires_at (demo_session WAITING_QUANTITY (Some demo_draft) 10) < (\<lambda>n. 100 + int n) 0
   \<and> distinct (map fst (sessions (demo_manager (demo_session WAITING_QUANTITY (Some demo_draft) 10))))
   \<and> fst (get_session (\<lambda>n. 100 + int n) ''s1''
        (demo_manager (demo_session WAITING_QUANTITY (Some demo_draft) 10))) = None
   \<and> sessions (snd (get_session (\<lambda>n. 100 + int n) ''s1''
        (demo_manager (demo_session WAITING_QUANTITY (Some demo_draft) 10)))) = []
   \<and> map_of (sessions (cleanup_expired_sessions (\<lambda>n. 100 + int n)
        (demo_manager (demo_session WAITING_QUANTITY (Some demo_draft) 10)))) ''s1''
      = Some (demo_session WAITING_QUANTITY (Some demo_draft) 10)
   \<and> active_sessions (fst (get_session_statistics (\<lambda>n. 100 + int n)
        (demo_manager (demo_session WAITING_QUANTITY (Some demo_draft) 10)))) = 0
   \<and> total_sessions (fst (get_session_statistics (\<lambda>n. 100 + int n)
        (demo_manager (demo_session WAITING_QUANTITY (Some demo_draft) 10)))) = 1
   \<and> expired_sessions (fst (get_session_statistics (\<lambda>n. 100 + int n)
        (demo_manager (demo_session WAITING_QUANTITY (Some demo_draft) 10)))) = 1"
proof -
  let ?s = "demo_session WAITING_QUANTITY (Some demo_draft) 10"
  let ?clk = "\<lambda>n. 100 + int n"
  have h0: "\<forall>i j. i \<le> j \<longrightarrow> ?clk i \<le> ?clk j"
    by simp
  have hk: "distinct (map fst (sessions (demo_manager ?s)))"
    by (simp add: demo_manager_def)
  have h1: "map_of (sessions (demo_manager ?s)) ''s1'' = Some ?s"
    by (simp add: demo_manager_def)
  have h2: "expires_at ?s < ?clk (tick (demo_manager ?s))"
    by (simp add: demo_manager_def demo_session_def)
  have sess: "sessions (cleanup_expired_sessions ?clk (demo_manager ?s)) = [(''s1'', ?s)]"
    by (simp add: cleanup_expired_sessions_def now_def demo_manager_def timedelta_seconds_def)
  note inst = expired_session_inaccessible_and_not_active [OF h0 hk h1 h2]
  have "active_sessions (fst (get_session_statistics ?clk (demo_manager ?s))) =
          int (length (counted_active ?clk
                 (tick (cleanup_expired_sessions ?clk (demo_manager ?s)))
                 (sessions (cleanup_expired_sessions ?clk (demo_manager ?s)))))"
    using inst by blast
  then have act: "active_sessions (fst (get_session_statistics ?clk (demo_manager ?s))) = 0"
    unfolding sess by (simp add: demo_session_def)
  have tot: "total_sessions (fst (get_session_statistics ?clk (demo_manager ?s))) = 1"
    by (simp add: get_session_statistics_def Let_def sess split: prod.splits)
  have "0 < expired_sessions (fst (get_session_statistics ?clk (demo_manager ?s)))"
    using inst by (simp add: sess)
  moreover have "expired_sessions (fst (get_session_statistics ?clk (demo_manager ?s)))
      = total_sessions (fst (get_session_statistics ?clk (demo_manager ?s)))
        - active_sessions (fst (get_session_statistics ?clk (demo_manager ?s)))"
    by (simp add: get_session_statistics_def Let_def split: prod.splits)
  ultimately have exp: "expired_sessions (fst (get_session_statistics ?clk (demo_manager ?s))) = 1"
    using act tot by simp
  have gs: "sessions (snd (get_session ?clk ''s1'' (demo_manager ?s))) = []"
    by (simp add: get_session_def now_def delete_session_def demo_manager_def demo_session_def)
  have g1: "fst (get_session ?clk ''s1'' (demo_manager ?s)) = None"
    using inst by blast
  have mp: "map_of (sessions (cleanup_expired_sessions ?clk (demo_manager ?s))) ''s1'' = Some ?s"
    unfolding sess by simp
  have e0: "expires_at ?s < ?clk 0"
    by (simp add: demo_session_def)
  from e0 hk g1 gs mp act tot exp show ?thesis
    by blast
qed

text \<open>
  C1, as stated, fails on \<^verbatim>\<open>process_quantity\<close>: the function checks neither the order
  state nor the sign of the quantity.  On a live session in state WAITING\_QUANTITY with
  the draft \<open>demo_draft\<close> (quantity 1, total 150000), the quantity 0 is stored, the total
  becomes 0 and the state moves on to WAITING\_ADDRESS\_PHONE.
\<close>

theorem process_quantity_accepts_zero:
  "state_of ''s1'' (demo_manager (demo_session WAITING_QUANTITY (Some demo_draft) 3600000000))
     = Some WAITING_QUANTITY
   \<and> draft_of ''s1'' (demo_manager (demo_session WAITING_QUANTITY (Some demo_draft) 3600000000))
     = Some demo_draft
   \<and> state_of ''s1'' (snd (process_quantity (\<lambda>n. int n) ''s1'' 0
        (demo_manager (demo_session WAITING_QUANTITY (Some demo_draft) 3600000000))))
     = Some WAITING_ADDRESS_PHONE
   \<and> map_option quantity (draft_of ''s1'' (snd (process_quantity (\<lambda>n. int n) ''s1'' 0
        (demo_manager (demo_session WAITING_QUANTITY (Some demo_draft) 3600000000)))))
     = Some 0
   \<and> map_option total_price (draft_of ''s1'' (snd (process_quantity (\<lambda>n. int n) ''s1'' 0
        (demo_manager (demo_session WAITING_QUANTITY (Some demo_draft) 3600000000)))))
     = Some 0
   \<and> status (fst (process_quantity (\<lambda>n. int n) ''s1'' 0
        (demo_manager (demo_session WAITING_QUANTITY (Some demo_draft) 3600000000))))
     = ''success''"
  by (simp add: process_quantity_def set_order_state_def update_session_def
      update_order_data_def get_order_data_def get_session_def now_def
      draft_of_def state_of_def Let_def demo_manager_def demo_session_def demo_draft_def)

section \<open>Properties of normalisation\<close>

lemma isspace_space: "isspace 0x20"
  by (simp add: isspace_def)

lemma collapse_from_normal:
  "ws_normal (collapse_from b s) \<and>
   (b \<longrightarrow> collapse_from b s = [] \<or> \<not> isspace (hd (collapse_from b s)))"
proof (induction s arbitrary: b)
  case Nil
  then show ?case by simp
next
  case (Cons c cs)
  show ?case
  proof (cases "isspace c")
    case True
    note sp = this
    show ?thesis
    proof (cases b)
      case True
      with sp Cons[of True] show ?thesis by simp
    next
      case False
      from Cons[of True] have n: "ws_normal (collapse_from True cs)"
        and h: "collapse_from True cs = [] \<or> \<not> isspace (hd (collapse_from True cs))"
        by simp_all
      have "ws_normal (0x20 # collapse_from True cs)"
        using n h by (cases "collapse_from True cs") simp_all
      with sp False show ?thesis by simp
    qed
  next
    case False
    from Cons[of False] have n: "ws_normal (collapse_from False cs)" by simp
    have "ws_normal (c # collapse_from False cs)"
      using n False by (cases "collapse_from False cs") simp_all
    with False show ?thesis by simp
  qed
qed

lemma ws_normal_collapse_ws: "ws_normal (collapse_ws s)"
  using collapse_from_normal[of False s] by (simp add: collapse_ws_def)

lemma collapse_ws_id: "ws_normal s \<Longrightarrow> collapse_ws s = s"
  unfolding collapse_ws_def
  by (induction s rule: ws_normal.induct) (auto simp: isspace_space)

lemma ws_normal_tl: "ws_normal (c # cs) \<Longrightarrow> ws_normal cs"
  by (cases cs) simp_all

lemma ws_normal_suffix: "ws_normal (xs @ ys) \<Longrightarrow> ws_normal ys"
  by (induction xs) (auto dest: ws_normal_tl)

lemma ws_normal_prefix: "ws_normal (xs @ ys) \<Longrightarrow> ws_normal xs"
proof (induction xs rule: ws_normal.induct)
  case 1
  then show ?case by simp
next
  case (2 c)
  then show ?case by (cases ys) auto
next
  case (3 c d cs)
  then show ?case by auto
qed

lemma ws_normal_dropWhile: "ws_normal s \<Longrightarrow> ws_normal (dropWhile P s)"
  using ws_normal_suffix[of "takeWhile P s" "dropWhile P s"] by simp

lemma rstrip_prefix: "rev (dropWhile P (rev s)) @ rev (takeWhile P (rev s)) = s"
proof -
  have "rev (takeWhile P (rev s) @ dropWhile P (rev s)) = s" by simp
  then show ?thesis by (simp only: rev_append)
qed

lemma ws_normal_strip: "ws_normal s \<Longrightarrow> ws_normal (strip s)"
proof -
  assume "ws_normal s"
  then have a: "ws_normal (dropWhile isspace s)" by (rule ws_normal_dropWhile)
  have "rev (dropWhile isspace (rev (dropWhile isspace s))) @
          rev (takeWhile isspace (rev (dropWhile isspace s))) = dropWhile isspace s"
    by (rule rstrip_prefix)
  with a have "ws_normal (rev (dropWhile isspace (rev (dropWhile isspace s))))"
    using ws_normal_prefix by metis
  then show ?thesis by (simp add: strip_def)
qed

lemma set_strip: "set (strip s) \<subseteq> set s"
proof -
  have "set (strip s) \<subseteq> set (dropWhile isspace s)"
  proof
    fix x assume "x \<in> set (strip s)"
    then have "x \<in> set (dropWhile isspace (rev (dropWhile isspace s)))"
      by (simp add: strip_def)
    then have "x \<in> set (rev (dropWhile isspace s))" by (rule set_dropWhileD)
    then show "x \<in> set (dropWhile isspace s)" by simp
  qed
  also have "\<dots> \<subseteq> set s"
  proof
    fix x assume "x \<in> set (dropWhile isspace s)"
    then show "x \<in> set s" by (rule set_dropWhileD)
  qed
  finally show ?thesis .
qed

lemma strip_edges:
  "strip s = [] \<or> (\<not> isspace (hd (strip s)) \<and> \<not> isspace (last (strip s)))"
proof (cases "strip s = []")
  case True
  then show ?thesis by simp
next
  case False
  let ?a = "dropWhile isspace s"
  let ?b = "dropWhile isspace (rev ?a)"
  have b: "?b \<noteq> []" using False by (simp add: strip_def)
  then have hb: "\<not> isspace (hd ?b)" by (rule hd_dropWhile)
  have l: "last (strip s) = hd ?b" using b by (simp add: strip_def last_rev)
  have an: "?a \<noteq> []"
  proof
    assume a: "?a = []"
    have "?b = dropWhile isspace (rev [])" by (simp only: a)
    with b show False by simp
  qed
  then have ha: "\<not> isspace (hd ?a)" by (rule hd_dropWhile)
  have "rev ?b @ rev (takeWhile isspace (rev ?a)) = ?a" by (rule rstrip_prefix)
  moreover have "rev ?b \<noteq> []" using b by simp
  ultimately have "hd (rev ?b) = hd ?a" by (metis hd_append2)
  then have "hd (strip s) = hd ?a" by (simp add: strip_def)
  with ha hb l show ?thesis by simp
qed

lemma strip_id: "s = [] \<or> (\<not> isspace (hd s) \<and> \<not> isspace (last s)) \<Longrightarrow> strip s = s"
proof (cases "s = []")
  case True
  then show ?thesis by (simp add: strip_def)
next
  case False
  assume "s = [] \<or> (\<not> isspace (hd s) \<and> \<not> isspace (last s))"
  with False have h: "\<not> isspace (hd s)" and l: "\<not> isspace (last s)" by simp_all
  have 1: "dropWhile isspace s = s" using h by (simp add: dropWhile_eq_self_iff)
  have "hd (rev s) = last s" by (simp add: hd_rev)
  then have 2: "dropWhile isspace (rev s) = rev s" using l by (simp add: dropWhile_eq_self_iff)
  show ?thesis by (simp add: strip_def 1 2)
qed

lemma set_collapse_from: "set (collapse_from b s) \<subseteq> insert 0x20 (set s)"
  by (induction s arbitrary: b) auto

lemma lower_str_id: "\<forall>c\<in>set s. lower U c = [c] \<Longrightarrow> lower_str U s = s"
  unfolding lower_str_def by (induction s) simp_all

lemma sub_punctuation_id: "\<forall>c\<in>set s. keep_char U c \<Longrightarrow> sub_punctuation U s = s"
  unfolding sub_punctuation_def by (induction s) simp_all

lemma normalize_text_chars:
  assumes st: "lower_stable U" and c: "c \<in> set (normalize_text U x)"
  shows "lower U c = [c] \<and> keep_char U c"
proof -
  from c have x: "x \<noteq> []" by (auto simp: normalize_text_def)
  let ?v = "strip (lower_str U x)"
  let ?u = "sub_punctuation U ?v"
  let ?t = "collapse_ws ?u"
  have sp: "lower U 0x20 = [0x20] \<and> keep_char U 0x20"
    using st by (simp add: lower_stable_def keep_char_def isspace_space)
  from c x have "c \<in> set (strip ?t)" by (simp add: normalize_text_def)
  then have "c \<in> set ?t" using set_strip by blast
  then have "c = 0x20 \<or> c \<in> set ?u"
    using set_collapse_from[of False ?u] by (auto simp: collapse_ws_def)
  moreover
  { assume "c \<in> set ?u"
    then obtain d where d: "d \<in> set ?v" and cd: "c = (if keep_char U d then d else 0x20)"
      by (auto simp: sub_punctuation_def)
    from d have "d \<in> set (lower_str U x)" using set_strip by blast
    then obtain e where "d \<in> set (lower U e)" by (auto simp: lower_str_def)
    then have "lower U d = [d]" using st by (auto simp: lower_stable_def)
    with cd sp have ?thesis by (cases "keep_char U d") simp_all }
  ultimately show ?thesis using sp by blast
qed

lemma vn_tolower_idem: "vn_tolower (vn_tolower c) = vn_tolower c"
  by (auto simp: vn_tolower_def)

lemma lower_stable_vn_db: "lower_stable vn_db"
  by (simp add: lower_stable_def vn_db_def vn_tolower_idem) (simp add: vn_tolower_def)

text \<open>
  C8.  \<^verbatim>\<open>normalize_text\<close> is idempotent on every string, for every character database
  in which lower-casing is stable (as it is in Unicode).
\<close>

theorem normalize_text_idempotent:
  assumes "lower_stable U"
  shows "normalize_text U (normalize_text U x) = normalize_text U x"
proof (cases "normalize_text U x = []")
  case True
  then show ?thesis by (simp add: normalize_text_def)
next
  case False
  let ?y = "normalize_text U x"
  from False have x: "x \<noteq> []" by (auto simp: normalize_text_def)
  then have y: "?y = strip (collapse_ws (sub_punctuation U (strip (lower_str U x))))"
    by (simp add: normalize_text_def)
  have ch: "\<forall>c\<in>set ?y. lower U c = [c]" "\<forall>c\<in>set ?y. keep_char U c"
    using normalize_text_chars[OF assms] by blast+
  have n: "ws_normal ?y"
    unfolding y by (rule ws_normal_strip) (rule ws_normal_collapse_ws)
  have e: "?y = [] \<or> (\<not> isspace (hd ?y) \<and> \<not> isspace (last ?y))"
    unfolding y by (rule strip_edges)
  have 1: "lower_str U ?y = ?y" using ch(1) by (rule lower_str_id)
  have 2: "strip ?y = ?y" using e by (rule strip_id)
  have 3: "sub_punctuation U ?y = ?y" using ch(2) by (rule sub_punctuation_id)
  have 4: "collapse_ws ?y = ?y" using n by (rule collapse_ws_id)
  have "normalize_text U ?y = strip (collapse_ws (sub_punctuation U (strip (lower_str U ?y))))"
    using False by (simp add: normalize_text_def)
  then show ?thesis by (simp add: 1 2 3 4)
qed

text \<open>
  The witness: the input is two spaces, "Dat" with capital D-stroke, a tab and a space,
  "mua", an exclamation mark, a comma, "Gilead", a full stop and a space; it normalises
  to the three lower-case words separated by one space.
\<close>

theorem normalize_text_idempotent_witness:
  "normalize_text vn_db
     ([0x20, 0x20] @ w_DDawtj @ [0x09, 0x20] @ w_mua @ [0x21, 0x2C] @ w_Gilead @ [0x2E, 0x20])
     = phrase [w_ddawtj, w_mua, w_gilead]
   \<and> normalize_text vn_db (normalize_text vn_db
       ([0x20, 0x20] @ w_DDawtj @ [0x09, 0x20] @ w_mua @ [0x21, 0x2C] @ w_Gilead @ [0x2E, 0x20]))
     = phrase [w_ddawtj, w_mua, w_gilead]"
proof -
  have a: "normalize_text vn_db
     ([0x20, 0x20] @ w_DDawtj @ [0x09, 0x20] @ w_mua @ [0x21, 0x2C] @ w_Gilead @ [0x2E, 0x20])
     = phrase [w_ddawtj, w_mua, w_gilead]"
    by (simp add: normalize_text_def lower_str_def strip_def sub_punctuation_def keep_char_def
        collapse_ws_def vietnamese_letters_def word_defs phrase_def vn_db_defs is_word_def
        isspace_def)
  show ?thesis
    using normalize_text_idempotent [OF lower_stable_vn_db, of
        "[0x20, 0x20] @ w_DDawtj @ [0x09, 0x20] @ w_mua @ [0x21, 0x2C] @ w_Gilead @ [0x2E, 0x20]"]
    by (simp only: a simp_thms)
qed

text \<open>
  C10.  \<^verbatim>\<open>expand_synonyms\<close> is not idempotent.  On the canonical phrase "the loai"
  (category) the word "loai", a synonym of the phrase, is replaced by the phrase, which
  gives "the the loai"; expanding that again gives "the the the loai".
\<close>

theorem expand_synonyms_not_idempotent:
  "expand_synonyms vn_db (phrase [w_theer, w_loaij]) = phrase [w_theer, w_theer, w_loaij]
   \<and> expand_synonyms vn_db (expand_synonyms vn_db (phrase [w_theer, w_loaij]))
       = phrase [w_theer, w_theer, w_theer, w_loaij]
   \<and> expand_synonyms vn_db (expand_synonyms vn_db (phrase [w_theer, w_loaij]))
       \<noteq> expand_synonyms vn_db (phrase [w_theer, w_loaij])"
proof -
  have 1: "expand_synonyms vn_db (phrase [w_theer, w_loaij]) = phrase [w_theer, w_theer, w_loaij]"
    by (simp add: expand_synonyms_def SYNONYMS_def re_sub_def word_defs phrase_def vn_db_defs
        is_word_def isspace_def lit_eq_def)
  have 2: "expand_synonyms vn_db (phrase [w_theer, w_theer, w_loaij])
             = phrase [w_theer, w_theer, w_theer, w_loaij]"
    by (simp add: expand_synonyms_def SYNONYMS_def re_sub_def word_defs phrase_def vn_db_defs
        is_word_def isspace_def lit_eq_def)
  have 3: "phrase [w_theer, w_theer, w_theer, w_loaij] \<noteq> phrase [w_theer, w_theer, w_loaij]"
    by (simp add: word_defs phrase_def)
  show ?thesis by (simp only: 1 2 3 simp_thms)
qed

section \<open>Properties of sentiment analysis\<close>

lemma keyword_count_card: "card (set ws \<inter> set kws) = keyword_count ws kws"
proof -
  have "set (filter (\<lambda>k. k \<in> set ws) (remdups kws)) = set ws \<inter> set kws" by auto
  moreover have "distinct (filter (\<lambda>k. k \<in> set ws) (remdups kws))" by simp
  ultimately show ?thesis
    unfolding keyword_count_def by (metis distinct_card)
qed

lemma keyword_count_cong: "set ws = set ws' \<Longrightarrow> keyword_count ws kws = keyword_count ws' kws"
  by (simp add: keyword_count_def)

lemma keyword_count_Nil: "keyword_count [] kws = 0"
  by (simp add: keyword_count_def)

lemma analyze_sentiment_reference: "analyze_sentiment U text = sentiment_reference U text"
proof (cases "text = []")
  case True
  then show ?thesis
    by (simp add: analyze_sentiment_def sentiment_reference_def sentiment_resolution_def
        lower_str_def split_def keyword_count_Nil)
next
  case False
  then show ?thesis
    by (simp add: analyze_sentiment_def sentiment_reference_def sentiment_resolution_def
        Let_def keyword_count_card)
qed

lemma sentiment_reference_cong:
  "set (split (lower_str U a)) = set (split (lower_str U b))
   \<Longrightarrow> sentiment_reference U a = sentiment_reference U b"
  by (simp add: sentiment_reference_def Let_def
      keyword_count_cong[of "split (lower_str U a)" "split (lower_str U b)"])

lemma split_acc_spaces:
  "ws \<noteq> [] \<Longrightarrow> \<forall>d\<in>set ws. isspace d \<Longrightarrow>
   split_acc cur (ws @ r) = (if cur = [] then split_acc [] r else cur # split_acc [] r)"
proof (induction ws arbitrary: cur)
  case Nil
  then show ?case by simp
next
  case (Cons d ds)
  then show ?case by (cases "ds = []") auto
qed

lemma split_acc_nonspaces:
  "\<forall>d\<in>set nw. \<not> isspace d \<Longrightarrow> split_acc cur (nw @ r) = split_acc (cur @ nw) r"
  by (induction nw arbitrary: cur) auto

lemma lower_str_append: "lower_str U (xs @ ys) = lower_str U xs @ lower_str U ys"
  by (simp add: lower_str_def)

lemma lower_str_Nil_iff: "lower_keeps_words U \<Longrightarrow> lower_str U s = [] \<longleftrightarrow> s = []"
  by (cases s) (auto simp: lower_str_def lower_keeps_words_def)

lemma split_acc_lower:
  assumes k: "lower_keeps_words U"
  shows "split_acc (lower_str U cur) (lower_str U s) = map (lower_str U) (split_acc cur s)"
proof (induction s arbitrary: cur)
  case Nil
  then show ?case using lower_str_Nil_iff[OF k] by (simp add: lower_str_def)
next
  case (Cons c cs)
  have ne: "lower U c \<noteq> []" and sp: "\<forall>d\<in>set (lower U c). isspace d = isspace c"
    using k by (simp_all add: lower_keeps_words_def)
  have l: "lower_str U (c # cs) = lower U c @ lower_str U cs" by (simp add: lower_str_def)
  show ?case
  proof (cases "isspace c")
    case True
    with sp have "\<forall>d\<in>set (lower U c). isspace d" by simp
    from split_acc_spaces[OF ne this]
    have "split_acc (lower_str U cur) (lower U c @ lower_str U cs) =
            (if lower_str U cur = [] then split_acc [] (lower_str U cs)
             else lower_str U cur # split_acc [] (lower_str U cs))" .
    moreover have "split_acc [] (lower_str U cs) = map (lower_str U) (split_acc [] cs)"
      using Cons[of "[]"] by (simp add: lower_str_def)
    ultimately show ?thesis
      using True lower_str_Nil_iff[OF k, of cur] by (simp add: l)
  next
    case False
    with sp have "\<forall>d\<in>set (lower U c). \<not> isspace d" by simp
    from split_acc_nonspaces[OF this]
    have "split_acc (lower_str U cur) (lower U c @ lower_str U cs) =
            split_acc (lower_str U cur @ lower U c) (lower_str U cs)" .
    moreover have "lower_str U cur @ lower U c = lower_str U (cur @ [c])"
      by (simp add: lower_str_def)
    ultimately show ?thesis using False Cons[of "cur @ [c]"] by (simp add: l)
  qed
qed

lemma split_lower:
  "lower_keeps_words U \<Longrightarrow> split (lower_str U s) = map (lower_str U) (split s)"
  using split_acc_lower[of U "[]" s] by (simp add: split_def lower_str_def)

text \<open>
  C6.  \<^verbatim>\<open>analyze_sentiment\<close> equals the reference definition on every input, and the empty
  input is NEUTRAL.  Hence the tag depends only on the set of lower-cased words: two
  inputs with the same set get the same tag, and, in a character database where
  lower-casing maps whitespace to whitespace and other code points to non-empty strings
  without whitespace (as Unicode does), so do two inputs whose words are the same up to
  order and repetition.
\<close>

theorem analyze_sentiment_is_reference:
  "analyze_sentiment U text = sentiment_reference U text
   \<and> analyze_sentiment U [] = NEUTRAL
   \<and> (set (split (lower_str U a)) = set (split (lower_str U b))
        \<longrightarrow> analyze_sentiment U a = analyze_sentiment U b)
   \<and> (lower_keeps_words U \<and> set (split a) = set (split b)
        \<longrightarrow> analyze_sentiment U a = analyze_sentiment U b)"
proof -
  have 1: "analyze_sentiment U text = sentiment_reference U text"
    by (rule analyze_sentiment_reference)
  have 2: "analyze_sentiment U [] = NEUTRAL" by (simp add: analyze_sentiment_def)
  have 3: "analyze_sentiment U a = analyze_sentiment U b"
    if "set (split (lower_str U a)) = set (split (lower_str U b))"
    using sentiment_reference_cong[OF that] by (simp add: analyze_sentiment_reference)
  have 4: "analyze_sentiment U a = analyze_sentiment U b"
    if "lower_keeps_words U" and "set (split a) = set (split b)"
  proof -
    have "set (split (lower_str U a)) = lower_str U ` set (split a)"
      using that(1) by (simp add: split_lower)
    also have "\<dots> = lower_str U ` set (split b)" using that(2) by simp
    also have "\<dots> = set (split (lower_str U b))" using that(1) by (simp add: split_lower)
    finally show ?thesis by (rule 3)
  qed
  from 1 2 3 4 show ?thesis by blast
qed

lemma lower_keeps_words_vn_db: "lower_keeps_words vn_db"
  by (auto simp: lower_keeps_words_def vn_db_def vn_tolower_def isspace_def)

text \<open>The witness: "wow hay" and "hay", two spaces, "wow" are both EXCITED.\<close>

theorem analyze_sentiment_is_reference_witness:
  "analyze_sentiment vn_db (phrase [w_wow, w_hay]) = EXCITED
   \<and> analyze_sentiment vn_db (w_hay @ [0x20, 0x20] @ w_wow) = EXCITED"
proof -
  let ?a = "phrase [w_wow, w_hay]" and ?b = "w_hay @ [0x20, 0x20] @ w_wow"
  note inst = analyze_sentiment_is_reference [of vn_db ?a ?a ?b]
  have r: "sentiment_reference vn_db ?a = EXCITED"
    by (simp add: sentiment_reference_def sentiment_resolution_def keyword_count_def
        POSITIVE_KEYWORDS_def NEGATIVE_KEYWORDS_def FRUSTRATED_KEYWORDS_def EXCITED_KEYWORDS_def
        lower_str_def split_def word_defs phrase_def vn_db_defs isspace_def)
  have s: "set (split ?a) = set (split ?b)"
    by (simp add: split_def word_defs phrase_def isspace_def insert_commute)
  from inst r have 1: "analyze_sentiment vn_db ?a = EXCITED" by simp
  from inst s lower_keeps_words_vn_db have "analyze_sentiment vn_db ?a = analyze_sentiment vn_db ?b"
    by blast
  with 1 show ?thesis by simp
qed

section \<open>Properties of the price-range parser\<close>

lemma case_sum_map_sum: "(case x of Inl e \<Rightarrow> Inl e | Inr n \<Rightarrow> Inr (f n)) = map_sum id f x"
  by (cases x) simp_all

lemma price_range_of_int_pair:
  "price_range_of U m =
     map_sum id (\<lambda>(lo, hi). no_parameters\<lparr>p_price_range := Some (Some lo, Some hi)\<rparr>)
       (int_pair U (group m 1) (group m 2))"
  by (simp add: price_range_of_def int_pair_def split: sum.splits)

lemma extract_price_parameters_reference:
  "extract_price_parameters U text =
     (case first_match U price_patterns text 1 of
        None \<Rightarrow> Inr no_parameters
      | Some (k, m) \<Rightarrow> price_result U k m)"
  by (simp add: extract_price_parameters_def price_patterns_def price_result_def
      price_range_of_int_pair case_sum_map_sum split: option.splits)

lemmas price_eval_defs = price_patterns_def price_pattern_defs price_result_def int_pair_def
  single_sided_of_def search_def group_def py_int_def int_max_str_digits_def digits_value_def
  no_parameters_def lower_str_def
  word_defs digits_defs phrase_def vn_db_defs is_word_def isspace_def lit_eq_def
  ignorecase_fixes_def

lemma price_example_range:
  "map_option fst (first_match vn_db price_patterns
      (phrase [w_gias, w_tuwf, digits_50000, w_ddeens, digits_150000]) 1) = Some 1"
  "map_sum id p_price_range (extract_price_parameters vn_db
      (phrase [w_gias, w_tuwf, digits_50000, w_ddeens, digits_150000]))
     = Inr (Some (Some 50000, Some 150000))"
  by (simp_all add: extract_price_parameters_reference price_eval_defs)

lemma price_example_below:
  "map_option fst (first_match vn_db price_patterns (phrase [w_duwowis, digits_100000]) 1)
     = Some 6"
  "map_sum id p_price_range (extract_price_parameters vn_db (phrase [w_duwowis, digits_100000]))
     = Inr (Some (None, Some 100000))"
  by (simp_all add: extract_price_parameters_reference price_eval_defs)

lemma price_example_above:
  "map_option fst (first_match vn_db price_patterns (phrase [w_treen, digits_200000]) 1)
     = Some 5"
  "map_sum id p_price_range (extract_price_parameters vn_db (phrase [w_treen, digits_200000]))
     = Inr (Some (Some 200000, None))"
  by (simp_all add: extract_price_parameters_reference price_eval_defs)

text \<open>
  C7.  \<^verbatim>\<open>_extract_price_parameters\<close> returns what the first matching pattern of the list
  (a) to (f) yields (or raises what reading its numbers raises), and nothing when none
  matches.  On "gia tu 50000 den 150000"
  pattern (a) wins and gives (50000, 150000); on "duoi 100000" pattern (f) wins and gives
  (None, 100000); on "tren 200000" pattern (e) wins and gives (200000, None).
\<close>

theorem extract_price_parameters_first_match_wins:
  "extract_price_parameters U text =
     (case first_match U price_patterns text 1 of
        None \<Rightarrow> Inr no_parameters
      | Some (k, m) \<Rightarrow> price_result U k m)
   \<and> map_option fst (first_match vn_db price_patterns
         (phrase [w_gias, w_tuwf, digits_50000, w_ddeens, digits_150000]) 1) = Some 1
   \<and> map_sum id p_price_range (extract_price_parameters vn_db
         (phrase [w_gias, w_tuwf, digits_50000, w_ddeens, digits_150000]))
        = Inr (Some (Some 50000, Some 150000))
   \<and> map_option fst (first_match vn_db price_patterns (phrase [w_duwowis, digits_100000]) 1)
        = Some 6
   \<and> map_sum id p_price_range (extract_price_parameters vn_db (phrase [w_duwowis, digits_100000]))
        = Inr (Some (None, Some 100000))
   \<and> map_option fst (first_match vn_db price_patterns (phrase [w_treen, digits_200000]) 1)
        = Some 5
   \<and> map_sum id p_price_range (extract_price_parameters vn_db (phrase [w_treen, digits_200000]))
        = Inr (Some (Some 200000, None))"
  using extract_price_parameters_reference [of U "text"]
    price_example_range price_example_below price_example_above
  by (simp only: simp_thms)

section \<open>The confidence of a classification\<close>

lemmas classify_eval_defs = classify_loop_def sorted_intents_def intent_patterns_def pattern_defs
  consider_match_def calculate_confidence_def confidence_keywords_def finditer_def lower_str_def
  Let_def word_defs phrase_def vn_db_defs is_word_def isspace_def lit_eq_def ignorecase_fixes_def

lemma normalize_text_mua_sach:
  "normalize_text vn_db (phrase [w_mua, w_sachs]) = phrase [w_mua, w_sachs]"
  by (simp add: normalize_text_def lower_str_def strip_def sub_punctuation_def keep_char_def
      collapse_ws_def word_defs phrase_def vn_db_defs is_word_def isspace_def)

lemma expand_synonyms_mua_sach:
  "expand_synonyms vn_db (phrase [w_mua, w_sachs]) = phrase [w_ddawtj, w_sachs]"
  by (simp add: expand_synonyms_def SYNONYMS_def re_sub_def word_defs phrase_def vn_db_defs
      is_word_def isspace_def lit_eq_def)

lemma classify_loop_dat_sach:
  "classify_loop vn_db (phrase [w_ddawtj, w_sachs]) =
     \<lparr>best_intent = ORDER, best_confidence = 11 / 10,
      matched_entities =
        [\<lparr>ent_value = phrase [w_ddawtj, w_sachs], ent_confidence = 1, start_pos = 0,
          end_pos = 8, entity_type = ORDER\<rparr>]\<rparr>"
  by (simp add: classify_eval_defs)

lemma extract_parameters_dat_sach:
  "extract_parameters vn_db (phrase [w_ddawtj, w_sachs]) ORDER = Inr no_parameters"
  by (simp add: extract_parameters_def extract_order_parameters_def order_address_phone_def
      order_pattern_1_def order_pattern_2_def search_def word_defs phrase_def vn_db_defs
      is_word_def lit_eq_def)

lemma classify_intent_mua_sach:
  "classify_intent vn_db (phrase [w_mua, w_sachs]) =
     Inr \<lparr>intent = ORDER, confidence = 11 / 10,
          entities =
            [\<lparr>ent_value = phrase [w_ddawtj, w_sachs], ent_confidence = 1, start_pos = 0,
              end_pos = 8, entity_type = ORDER\<rparr>],
          parameters = no_parameters,
          original_text = phrase [w_mua, w_sachs],
          sentiment = None\<rparr>"
proof -
  have ne: "phrase [w_mua, w_sachs] \<noteq> []" by (simp add: phrase_def word_defs)
  show ?thesis
    using ne
    by (simp add: classify_intent_def normalize_text_mua_sach expand_synonyms_mua_sach
        classify_loop_dat_sach extract_parameters_dat_sach Let_def)
qed

text \<open>
  C2 fails on the code.  On the input "mua sach" (buy a book) the only match that is
  ever the best is the whole expanded text "dat sach", of the first ORDER pattern: its raw
  confidence, recorded in the entity, is 1, and the confidence of the result is that plus
  the priority bonus of ORDER, \<open>10 * 1/100\<close>.
\<close>

theorem classify_intent_confidence_has_priority_bonus:
  "map_sum id intent (classify_intent vn_db (phrase [w_mua, w_sachs])) = Inr ORDER
   \<and> map_sum id (\<lambda>r. map ent_confidence (entities r))
        (classify_intent vn_db (phrase [w_mua, w_sachs])) = Inr [1]
   \<and> map_sum id confidence (classify_intent vn_db (phrase [w_mua, w_sachs]))
       = Inr (1 + of_int (intent_priority ORDER) * (1 / 100))
   \<and> map_sum id confidence (classify_intent vn_db (phrase [w_mua, w_sachs])) \<noteq> Inr 1"
  by (simp add: classify_intent_mua_sach)

text \<open>
  C3 fails on the code.  On the same input the classifier returns a result, and its
  confidence is \<open>11/10\<close>, outside the interval from 0 to 1.  (In the double arithmetic of
  Python the raw confidence is \<open>min(1.0, 0.7 + 0.4 + 0.2)\<close>, exactly 1.0, and the result is
  1.0 + 10 * 0.01, which prints as 1.1.)
\<close>

theorem classify_intent_confidence_above_one:
  "map_sum id confidence (classify_intent vn_db (phrase [w_mua, w_sachs])) = Inr (11 / 10)
   \<and> map_sum id (\<lambda>r. confidence r \<le> 1) (classify_intent vn_db (phrase [w_mua, w_sachs]))
       = Inr False"
  by (simp add: classify_intent_mua_sach)

section \<open>The quantity step\<close>

lemma digits_value_nonneg: "0 \<le> digits_value U s"
  by (simp add: digits_value_def)

lemma extract_quantity_nonneg: "extract_quantity U user_input = Inr (Some q) \<Longrightarrow> 0 \<le> q"
  by (auto simp: extract_quantity_def py_int_def digits_value_nonneg
      split: option.splits sum.splits if_splits)

lemma process_quantity_unguarded:
  assumes s: "map_of (sessions m) sid = Some s" and od: "order_data s = Some od"
    and live: "\<forall>n. n < tick m + 11 \<longrightarrow> clk n \<le> expires_at s"
  shows "state_of sid (snd (process_quantity clk sid qty m)) = Some WAITING_ADDRESS_PHONE
       \<and> map_option quantity (draft_of sid (snd (process_quantity clk sid qty m))) = Some qty
       \<and> map_option total_price (draft_of sid (snd (process_quantity clk sid qty m)))
           = Some (price od * qty)
       \<and> status (fst (process_quantity clk sid qty m)) = ''success''"
proof -
  have nl: "\<And>n. n < 11 \<Longrightarrow> \<not> expires_at s < clk (tick m + n)"
    using live by (simp add: not_less)
  have nl': "\<not> expires_at s < clk (tick m)"
    "\<not> expires_at s < clk (Suc (Suc (Suc (Suc (tick m)))))"
    "\<not> expires_at s < clk (Suc (Suc (Suc (Suc (Suc (Suc (tick m)))))))"
    using nl[of 0] nl[of 4] nl[of 6] by (simp_all add: numeral_eq_Suc)
  show ?thesis
    using s od nl'
    by (simp add: process_quantity_def set_order_state_def update_session_def
        update_order_data_def get_order_data_def get_session_def now_def update_conv'
        draft_of_def state_of_def Let_def)
qed

text \<open>
  C1, amended.  The guard of the quantity step is in \<^verbatim>\<open>_handle_quantity_input\<close>, and it
  is on the number that \<^verbatim>\<open>extract_quantity\<close> reads, the first standalone run of digits of
  the user's text, which is never negative:
  \<^item> when the text has no such run, or the run has the value 0, the handler answers with
    the retry prompt and returns the manager as it was, so the order state and the draft
    of every session are unchanged;
  \<^item> when the value is not 0 it is positive, and the handler answers with what
    \<^verbatim>\<open>process_quantity\<close> returns for it;
  \<^item> when reading the number raises, the handler raises and nothing is changed.

  \<^verbatim>\<open>process_quantity\<close> itself has no guard: for a session that the manager holds with a
  draft, in any order state, that does not expire during the call (11 clock readings),
  and any quantity, positive or not, it stores the quantity, sets the total to price times
  quantity and moves the state to WAITING\_ADDRESS\_PHONE.
\<close>

theorem quantity_step_guard:
  "(extract_quantity U user_input = Inr None \<or> extract_quantity U user_input = Inr (Some 0)
      \<longrightarrow> handle_quantity_input U clk user_input sid m =
            Inr (\<lparr>h_message = Msg_invalid_quantity, h_intent = ''order_quantity_error'',
                  h_data = None\<rparr>, m))
   \<and> (extract_quantity U user_input = Inr (Some q) \<and> q \<noteq> 0
      \<longrightarrow> 0 < q
          \<and> handle_quantity_input U clk user_input sid m =
              Inr (\<lparr>h_message = msg (fst (process_quantity clk sid q m)),
                    h_intent = ''order_quantity'',
                    h_data = result_order_data (fst (process_quantity clk sid q m))\<rparr>,
                   snd (process_quantity clk sid q m)))
   \<and> (extract_quantity U user_input = Inl e
      \<longrightarrow> handle_quantity_input U clk user_input sid m = Inl e)
   \<and> (map_of (sessions m) sid = Some s \<and> order_data s = Some od
        \<and> (\<forall>n. n < tick m + 11 \<longrightarrow> clk n \<le> expires_at s)
      \<longrightarrow> state_of sid (snd (process_quantity clk sid qty m)) = Some WAITING_ADDRESS_PHONE
          \<and> map_option quantity (draft_of sid (snd (process_quantity clk sid qty m))) = Some qty
          \<and> map_option total_price (draft_of sid (snd (process_quantity clk sid qty m)))
              = Some (price od * qty)
          \<and> status (fst (process_quantity clk sid qty m)) = ''success'')"
proof -
  have 1: "handle_quantity_input U clk user_input sid m =
            Inr (\<lparr>h_message = Msg_invalid_quantity, h_intent = ''order_quantity_error'',
                  h_data = None\<rparr>, m)"
    if "extract_quantity U user_input = Inr None \<or> extract_quantity U user_input = Inr (Some 0)"
    using that by (auto simp: handle_quantity_input_def)
  have 2: "0 < q \<and> handle_quantity_input U clk user_input sid m =
              Inr (\<lparr>h_message = msg (fst (process_quantity clk sid q m)),
                    h_intent = ''order_quantity'',
                    h_data = result_order_data (fst (process_quantity clk sid q m))\<rparr>,
                   snd (process_quantity clk sid q m))"
    if a: "extract_quantity U user_input = Inr (Some q)" and b: "q \<noteq> 0"
  proof -
    from extract_quantity_nonneg[OF a] b have "0 < q" by simp
    then show ?thesis using a by (simp add: handle_quantity_input_def split: prod.splits)
  qed
  have 3: "handle_quantity_input U clk user_input sid m = Inl e"
    if "extract_quantity U user_input = Inl e"
    using that by (simp add: handle_quantity_input_def)
  from 1 2 3 process_quantity_unguarded[of m sid s od clk qty] show ?thesis by blast
qed

text \<open>
  The witness.  In state WAITING\_QUANTITY with the draft at 150000: the answer "0" is
  rejected and the manager is returned as it was; so is "0 5", whose first number is 0;
  the answer "-5" is read as 5 and accepted, which gives quantity 5 and total 750000.
  And \<^verbatim>\<open>process_quantity\<close> called with \<open>-3\<close> in state CONFIRMING\_ORDER stores \<open>-3\<close> with
  total \<open>-450000\<close> and moves to WAITING\_ADDRESS\_PHONE.
\<close>

theorem quantity_step_guard_witness:
  "extract_quantity vn_db digits_0 = Inr (Some 0)
   \<and> handle_quantity_input vn_db (\<lambda>n. int n) digits_0 ''s1''
        (demo_manager (demo_session WAITING_QUANTITY (Some demo_draft) 3600000000))
      = Inr (\<lparr>h_message = Msg_invalid_quantity, h_intent = ''order_quantity_error'',
              h_data = None\<rparr>,
             demo_manager (demo_session WAITING_QUANTITY (Some demo_draft) 3600000000))
   \<and> extract_quantity vn_db [0x30, 0x20, 0x35] = Inr (Some 0)
   \<and> handle_quantity_input vn_db (\<lambda>n. int n) [0x30, 0x20, 0x35] ''s1''
        (demo_manager (demo_session WAITING_QUANTITY (Some demo_draft) 3600000000))
      = Inr (\<lparr>h_message = Msg_invalid_quantity, h_intent = ''order_quantity_error'',
              h_data = None\<rparr>,
             demo_manager (demo_session WAITING_QUANTITY (Some demo_draft) 3600000000))
   \<and> extract_quantity vn_db [0x2D, 0x35] = Inr (Some 5)
   \<and> map_sum id (\<lambda>r. state_of ''s1'' (snd r))
        (handle_quantity_input vn_db (\<lambda>n. int n) [0x2D, 0x35] ''s1''
           (demo_manager (demo_session WAITING_QUANTITY (Some demo_draft) 3600000000)))
      = Inr (Some WAITING_ADDRESS_PHONE)
   \<and> map_sum id (\<lambda>r. map_option quantity (draft_of ''s1'' (snd r)))
        (handle_quantity_input vn_db (\<lambda>n. int n) [0x2D, 0x35] ''s1''
           (demo_manager (demo_session WAITING_QUANTITY (Some demo_draft) 3600000000)))
      = Inr (Some 5)
   \<and> map_sum id (\<lambda>r. map_option total_price (draft_of ''s1'' (snd r)))
        (handle_quantity_input vn_db (\<lambda>n. int n) [0x2D, 0x35] ''s1''
           (demo_manager (demo_session WAITING_QUANTITY (Some demo_draft) 3600000000)))
      = Inr (Some 750000)
   \<and> state_of ''s1'' (snd (process_quantity (\<lambda>n. int n) ''s1'' (- 3)
        (demo_manager (demo_session CONFIRMING_ORDER (Some demo_draft) 3600000000))))
      = Some WAITING_ADDRESS_PHONE
   \<and> map_option quantity (draft_of ''s1'' (snd (process_quantity (\<lambda>n. int n) ''s1'' (- 3)
        (demo_manager (demo_session CONFIRMING_ORDER (Some demo_draft) 3600000000)))))
      = Some (- 3)
   \<and> map_option total_price (draft_of ''s1'' (snd (process_quantity (\<lambda>n. int n) ''s1'' (- 3)
        (demo_manager (demo_session CONFIRMING_ORDER (Some demo_draft) 3600000000)))))
      = Some (- 450000)"
proof -
  let ?clk = "\<lambda>n. int n"
  let ?m = "demo_manager (demo_session WAITING_QUANTITY (Some demo_draft) 3600000000)"
  let ?c = "demo_session CONFIRMING_ORDER (Some demo_draft) 3600000000"
  let ?retry = "\<lparr>h_message = Msg_invalid_quantity, h_intent = ''order_quantity_error'',
                 h_data = None\<rparr>"
  note q_defs = extract_quantity_def order_pattern_1_def search_def group_def py_int_def
    int_max_str_digits_def digits_value_def digits_defs vn_db_defs is_word_def
  have q0: "extract_quantity vn_db digits_0 = Inr (Some 0)" by (simp add: q_defs)
  have q05: "extract_quantity vn_db [0x30, 0x20, 0x35] = Inr (Some 0)" by (simp add: q_defs)
  have q5: "extract_quantity vn_db [0x2D, 0x35] = Inr (Some 5)" by (simp add: q_defs)
  have r0: "handle_quantity_input vn_db ?clk digits_0 ''s1'' ?m = Inr (?retry, ?m)"
    using quantity_step_guard [of vn_db digits_0 ?clk "''s1''" ?m] q0 by blast
  have r05: "handle_quantity_input vn_db ?clk [0x30, 0x20, 0x35] ''s1'' ?m = Inr (?retry, ?m)"
    using quantity_step_guard [of vn_db "[0x30, 0x20, 0x35]" ?clk "''s1''" ?m] q05 by blast
  have h1: "map_of (sessions ?m) ''s1'' = Some (demo_session WAITING_QUANTITY (Some demo_draft) 3600000000)"
    by (simp add: demo_manager_def)
  have h2: "order_data (demo_session WAITING_QUANTITY (Some demo_draft) 3600000000) = Some demo_draft"
    by (simp add: demo_session_def)
  have h3: "\<forall>n. n < tick ?m + 11 \<longrightarrow>
              ?clk n \<le> expires_at (demo_session WAITING_QUANTITY (Some demo_draft) 3600000000)"
    by (simp add: demo_manager_def demo_session_def)
  have r5: "handle_quantity_input vn_db ?clk [0x2D, 0x35] ''s1'' ?m =
              Inr (\<lparr>h_message = msg (fst (process_quantity ?clk ''s1'' 5 ?m)),
                    h_intent = ''order_quantity'',
                    h_data = result_order_data (fst (process_quantity ?clk ''s1'' 5 ?m))\<rparr>,
                   snd (process_quantity ?clk ''s1'' 5 ?m))"
    using quantity_step_guard [of vn_db "[0x2D, 0x35]" ?clk "''s1''" ?m 5] q5 by simp
  have p5: "state_of ''s1'' (snd (process_quantity ?clk ''s1'' 5 ?m)) = Some WAITING_ADDRESS_PHONE
          \<and> map_option quantity (draft_of ''s1'' (snd (process_quantity ?clk ''s1'' 5 ?m))) = Some 5
          \<and> map_option total_price (draft_of ''s1'' (snd (process_quantity ?clk ''s1'' 5 ?m)))
              = Some (price demo_draft * 5)"
    using quantity_step_guard
      [of vn_db digits_0 ?clk "''s1''" ?m 5 ValueError
          "demo_session WAITING_QUANTITY (Some demo_draft) 3600000000" demo_draft 5]
      h1 h2 h3
    by blast
  have g1: "map_of (sessions (demo_manager ?c)) ''s1'' = Some ?c"
    by (simp add: demo_manager_def)
  have g2: "order_data ?c = Some demo_draft" by (simp add: demo_session_def)
  have g3: "\<forall>n. n < tick (demo_manager ?c) + 11 \<longrightarrow> ?clk n \<le> expires_at ?c"
    by (simp add: demo_manager_def demo_session_def)
  have p3: "state_of ''s1'' (snd (process_quantity ?clk ''s1'' (- 3) (demo_manager ?c)))
              = Some WAITING_ADDRESS_PHONE
          \<and> map_option quantity (draft_of ''s1'' (snd (process_quantity ?clk ''s1'' (- 3) (demo_manager ?c))))
              = Some (- 3)
          \<and> map_option total_price (draft_of ''s1'' (snd (process_quantity ?clk ''s1'' (- 3) (demo_manager ?c))))
              = Some (price demo_draft * (- 3))"
    using quantity_step_guard
      [of vn_db digits_0 ?clk "''s1''" "demo_manager ?c" 5 ValueError ?c demo_draft "- 3"]
      g1 g2 g3
    by blast
  have pr: "price demo_draft = 150000" by (simp add: demo_draft_def)
  show ?thesis
    using q0 q05 q5 r0 r05 r5 p5 p3 by (simp add: pr)
qed

end
